theory Spec2Isabelle
  imports Complex_Main
begin

section \<open>Model-choice tables (App.py, lines 23-134)\<close>

text \<open>
  A Python dictionary literal is an association list in insertion order: the key list
  that \<^verbatim>\<open>list(d.keys())\<close> returns is the list of first components, and
  \<^verbatim>\<open>d.get(k, default)\<close> is a lookup with a default.
\<close>

type_synonym ('k, 'v) dict = "('k \<times> 'v) list"

definition dict_keys :: "('k, 'v) dict \<Rightarrow> 'k list" where
  "dict_keys d = map fst d"

definition dict_get :: "('k, 'v) dict \<Rightarrow> 'k \<Rightarrow> 'v \<Rightarrow> 'v" where
  "dict_get d k dflt = (case map_of d k of None \<Rightarrow> dflt | Some v \<Rightarrow> v)"

definition ASPECT_RATIOS_1_3b :: "(string, int \<times> int) dict" where
  "ASPECT_RATIOS_1_3b =
     [(''1:1'', (640, 640)),
      (''4:3'', (736, 544)),
      (''3:4'', (544, 736)),
      (''3:2'', (768, 512)),
      (''2:3'', (512, 768)),
      (''16:9'', (832, 480)),
      (''9:16'', (480, 832)),
      (''21:9'', (960, 416)),
      (''9:21'', (416, 960)),
      (''4:5'', (560, 704)),
      (''5:4'', (704, 560))]"

definition ASPECT_RATIOS_14b :: "(string, int \<times> int) dict" where
  "ASPECT_RATIOS_14b =
     [(''1:1'', (960, 960)),
      (''4:3'', (1104, 832)),
      (''3:4'', (832, 1104)),
      (''3:2'', (1152, 768)),
      (''2:3'', (768, 1152)),
      (''16:9'', (1280, 720)),
      (''16:9_low'', (832, 480)),
      (''9:16'', (720, 1280)),
      (''9:16_low'', (832, 480)),
      (''21:9'', (1472, 624)),
      (''9:21'', (624, 1472)),
      (''4:5'', (864, 1072)),
      (''5:4'', (1072, 864))]"

text \<open>The choices of the two radio buttons of the form (lines 945-960).\<close>

definition model_choices :: "string list" where
  "model_choices =
     [''WAN 2.1 1.3B (Text/Video-to-Video)'',
      ''WAN 2.1 14B Text-to-Video'',
      ''WAN 2.1 14B Image-to-Video 720P'',
      ''WAN 2.1 14B Image-to-Video 480P'']"

definition vram_presets :: "string list" where
  "vram_presets =
     [''4GB'', ''6GB'', ''8GB'', ''10GB'', ''12GB'', ''16GB'', ''24GB'', ''32GB'', ''48GB'', ''80GB'']"

definition update_vram_and_resolution :: "string \<Rightarrow> string \<Rightarrow> string \<times> string list \<times> string" where
  "update_vram_and_resolution model_choice preset =
     (if model_choice = ''WAN 2.1 1.3B (Text/Video-to-Video)'' then
        (dict_get
           [(''4GB'', ''0''),
            (''6GB'', ''500000000''),
            (''8GB'', ''1000000000''),
            (''10GB'', ''7000000000''),
            (''12GB'', ''7000000000''),
            (''16GB'', ''7000000000''),
            (''24GB'', ''7000000000''),
            (''32GB'', ''7000000000''),
            (''48GB'', ''12000000000''),
            (''80GB'', ''12000000000'')] preset ''12000000000'',
         dict_keys ASPECT_RATIOS_1_3b, ''16:9'')
      else if model_choice = ''WAN 2.1 14B Text-to-Video'' then
        (dict_get
           [(''4GB'', ''0''),
            (''6GB'', ''0''),
            (''8GB'', ''0''),
            (''10GB'', ''0''),
            (''12GB'', ''0''),
            (''16GB'', ''0''),
            (''24GB'', ''3000000000''),
            (''32GB'', ''6500000000''),
            (''48GB'', ''22000000000''),
            (''80GB'', ''70000000000'')] preset ''12000000000'',
         dict_keys ASPECT_RATIOS_14b, ''16:9'')
      else if model_choice = ''WAN 2.1 14B Image-to-Video 720P'' then
        (dict_get
           [(''4GB'', ''0''),
            (''6GB'', ''0''),
            (''8GB'', ''0''),
            (''10GB'', ''0''),
            (''12GB'', ''0''),
            (''16GB'', ''0''),
            (''24GB'', ''0''),
            (''32GB'', ''3500000000''),
            (''48GB'', ''12000000000''),
            (''80GB'', ''70000000000'')] preset ''12000000000'',
         dict_keys ASPECT_RATIOS_14b, ''16:9'')
      else if model_choice = ''WAN 2.1 14B Image-to-Video 480P'' then
        (dict_get
           [(''4GB'', ''0''),
            (''6GB'', ''0''),
            (''8GB'', ''0''),
            (''10GB'', ''0''),
            (''12GB'', ''0''),
            (''16GB'', ''1200000000''),
            (''24GB'', ''5000000000''),
            (''32GB'', ''9500000000''),
            (''48GB'', ''20000000000''),
            (''80GB'', ''70000000000'')] preset ''12000000000'',
         dict_keys ASPECT_RATIOS_1_3b, ''16:9'')
      else
        (dict_get
           [(''4GB'', ''0''),
            (''6GB'', ''0''),
            (''8GB'', ''0''),
            (''10GB'', ''0''),
            (''12GB'', ''0''),
            (''16GB'', ''0''),
            (''24GB'', ''0''),
            (''32GB'', ''12000000000''),
            (''48GB'', ''12000000000''),
            (''80GB'', ''70000000000'')] preset ''12000000000'',
         dict_keys ASPECT_RATIOS_14b, ''16:9''))"

section \<open>Auto crop of an image (App.py, lines 178-204)\<close>

text \<open>
  The exceptions of Python that the modelled code can raise.
\<close>

datatype py_exception =
    ZeroDivisionError
  | ValueError
  | UnboundLocalError
  | OSError
  | CalledProcessError

text \<open>
  An image is known by its size and by the operations of the imaging library that made
  it: \<^verbatim>\<open>image.crop((left, upper, right, lower))\<close> returns the rectangle, of size
  \<open>(right - left, lower - upper)\<close>; \<^verbatim>\<open>image.resize((width, height), Image.LANCZOS)\<close>
  returns an image of the requested size. Both are calls into the library, taken here by
  their documented contract; the pixel values are not modelled.
\<close>

datatype image =
    Pixels int int
  | Crop image "int \<times> int \<times> int \<times> int"
  | Resize image "int \<times> int"

fun image_size :: "image \<Rightarrow> int \<times> int" where
  "image_size (Pixels w h) = (w, h)"
| "image_size (Crop im (left, upper, right, lower)) = (right - left, lower - upper)"
| "image_size (Resize im (w, h)) = (w, h)"

text \<open>
  Python's \<^verbatim>\<open>/\<close> on integers and its arithmetic on floats compute the exact result
  and round it to a double. The rounding is the parameter \<open>rnd\<close> of the model, applied
  after each exact operation on rationals, so that what is proved holds for the rounding
  of the machine and for exact arithmetic (\<open>rnd = (\<lambda>x. x)\<close>) alike. A division by zero
  raises. \<^verbatim>\<open>int(x)\<close> truncates a float towards zero; \<^verbatim>\<open>//\<close> on integers is the floor
  division, \<open>div\<close> on \<open>int\<close>.
\<close>

definition float_to_int :: "rat \<Rightarrow> int" where
  "float_to_int x = (if 0 \<le> x then \<lfloor>x\<rfloor> else \<lceil>x\<rceil>)"

definition auto_crop_image :: "(rat \<Rightarrow> rat) \<Rightarrow> image \<Rightarrow> int \<Rightarrow> int \<Rightarrow> py_exception + image" where
  "auto_crop_image rnd img target_width target_height =
     (case image_size img of (w, h) \<Rightarrow>
        if target_height = 0 then Inl ZeroDivisionError
        else let target_ratio = rnd (of_int target_width / of_int target_height) in
        if h = 0 then Inl ZeroDivisionError
        else let current_ratio = rnd (of_int w / of_int h) in
        if current_ratio > target_ratio then
          let new_width = float_to_int (rnd (of_int h * target_ratio));
              left = (w - new_width) div 2;
              right = left + new_width
          in Inr (Resize (Crop img (left, 0, right, h)) (target_width, target_height))
        else if current_ratio < target_ratio then
          if target_ratio = 0 then Inl ZeroDivisionError
          else
            let new_height = float_to_int (rnd (of_int w / target_ratio));
                top = (h - new_height) div 2;
                bottom = top + new_height
            in Inr (Resize (Crop img (0, top, w, bottom)) (target_width, target_height))
        else Inr (Resize img (target_width, target_height)))"

section \<open>Strings, paths and decimal numerals of Python\<close>

text \<open>
  Strings are lists of characters; the characters of the model are the ASCII ones.
  \<^verbatim>\<open>str.strip()\<close> removes the white space at both ends: the characters 9 to 13,
  28 to 31 and the blank.
\<close>

definition is_space :: "char \<Rightarrow> bool" where
  "is_space c =
     (c \<in> set [CHR 0x09, CHR 0x0A, CHR 0x0B, CHR 0x0C, CHR 0x0D,
                CHR 0x1C, CHR 0x1D, CHR 0x1E, CHR 0x1F, CHR 0x20])"

definition strip :: "string \<Rightarrow> string" where
  "strip s = rev (dropWhile is_space (rev (dropWhile is_space s)))"

definition is_digit :: "char \<Rightarrow> bool" where
  "is_digit c = (c \<in> set ''0123456789'')"

definition digit_val :: "char \<Rightarrow> int" where
  "digit_val c = int (length (takeWhile (\<lambda>d. d \<noteq> c) ''0123456789''))"

definition digit_char :: "nat \<Rightarrow> char" where
  "digit_char d = ''0123456789'' ! d"

text \<open>
  \<^verbatim>\<open>int(s)\<close> on a string, in base ten: white space at both ends is dropped, then comes
  an optional sign, then digits, where single underscores may stand between two digits.
  Anything else raises \<^verbatim>\<open>ValueError\<close>.
\<close>

fun parse_digits :: "int \<Rightarrow> string \<Rightarrow> int option" where
  "parse_digits acc [] = Some acc"
| "parse_digits acc (c # cs) =
     (if is_digit c then parse_digits (10 * acc + digit_val c) cs
      else if c = CHR ''_'' then
        (case cs of
           [] \<Rightarrow> None
         | d # ds \<Rightarrow> if is_digit d then parse_digits (10 * acc + digit_val d) ds else None)
      else None)"

definition parse_unsigned :: "string \<Rightarrow> int option" where
  "parse_unsigned s =
     (case s of
        [] \<Rightarrow> None
      | c # cs \<Rightarrow> if is_digit c then parse_digits (digit_val c) cs else None)"

definition py_int :: "string \<Rightarrow> py_exception + int" where
  "py_int s =
     (let t = strip s;
          v = (case t of
                 [] \<Rightarrow> None
               | c # cs \<Rightarrow>
                   if c = CHR ''-'' then map_option uminus (parse_unsigned cs)
                   else if c = CHR ''+'' then parse_unsigned cs
                   else parse_unsigned t)
      in case v of None \<Rightarrow> Inl ValueError | Some n \<Rightarrow> Inr n)"

text \<open>
  The decimal numeral of a natural number, \<^verbatim>\<open>str(n)\<close>, and the format \<^verbatim>\<open>05d\<close>
  of an integer: the numeral filled with zeros on the left up to a width of five, the
  sign counting as one of the five.
\<close>

fun digits_nat :: "nat \<Rightarrow> string" where
  "digits_nat n = (if n < 10 then [digit_char n] else digits_nat (n div 10) @ [digit_char (n mod 10)])"

declare digits_nat.simps [simp del]

definition zero_fill :: "nat \<Rightarrow> string \<Rightarrow> string" where
  "zero_fill width s = replicate (width - length s) CHR ''0'' @ s"

definition format_05d :: "int \<Rightarrow> string" where
  "format_05d n =
     (if n < 0 then CHR ''-'' # zero_fill 4 (digits_nat (nat (- n)))
      else zero_fill 5 (digits_nat (nat n)))"

text \<open>
  \<^verbatim>\<open>s.endswith(suffix)\<close>, \<^verbatim>\<open>p.rfind(c)\<close> (the last index of \<open>c\<close>, or \<open>-1\<close>) and
  \<^verbatim>\<open>os.path.splitext\<close> of the POSIX path module: the extension starts at the last dot
  of the last path component, unless only dots precede it in that component.
\<close>

definition endswith :: "string \<Rightarrow> string \<Rightarrow> bool" where
  "endswith s suffix = (length suffix \<le> length s \<and> drop (length s - length suffix) s = suffix)"

definition rfind :: "string \<Rightarrow> char \<Rightarrow> int" where
  "rfind p c =
     (if c \<in> set p then int (length p) - 1 - int (length (takeWhile (\<lambda>x. x \<noteq> c) (rev p))) else - 1)"

function splitext_loop :: "string \<Rightarrow> int \<Rightarrow> int \<Rightarrow> (string \<times> string) option" where
  "splitext_loop p filenameIndex dotIndex =
     (if filenameIndex < dotIndex then
        (if take 1 (drop (nat filenameIndex) p) \<noteq> ''.''
         then Some (take (nat dotIndex) p, drop (nat dotIndex) p)
         else splitext_loop p (filenameIndex + 1) dotIndex)
      else None)"
  by pat_completeness auto
termination
  by (relation "measure (\<lambda>(p, filenameIndex, dotIndex). nat (dotIndex - filenameIndex))") auto

declare splitext_loop.simps [simp del]

definition splitext :: "string \<Rightarrow> string \<times> string" where
  "splitext p =
     (let sepIndex = rfind p CHR ''/'';
          dotIndex = rfind p CHR ''.''
      in if dotIndex > sepIndex then
           (case splitext_loop p (sepIndex + 1) dotIndex of
              Some r \<Rightarrow> r
            | None \<Rightarrow> (p, []))
         else (p, []))"


section \<open>The next output file name (App.py, lines 760-777)\<close>

text \<open>
  The state of the folder \<^verbatim>\<open>outputs\<close> is the list of the names in it, as
  \<^verbatim>\<open>os.listdir\<close> returns them, or \<open>None\<close> when the folder does not exist; then
  \<^verbatim>\<open>os.makedirs\<close> creates it, empty. The loop over the existing files keeps the
  numbers of the names whose stem \<^verbatim>\<open>int\<close> accepts; \<^verbatim>\<open>max(xs, default=0)\<close> is the
  largest of them, and 0 when there is none.
\<close>

fun current_numbers_loop :: "string list \<Rightarrow> int list \<Rightarrow> int list" where
  "current_numbers_loop [] current_numbers = current_numbers"
| "current_numbers_loop (file # files) current_numbers =
     (case py_int (fst (splitext file)) of
        Inr num \<Rightarrow> current_numbers_loop files (current_numbers @ [num])
      | Inl e \<Rightarrow> current_numbers_loop files current_numbers)"

definition max_default :: "int list \<Rightarrow> int \<Rightarrow> int" where
  "max_default xs d = (case xs of [] \<Rightarrow> d | x # r \<Rightarrow> fold max r x)"

definition get_next_filename :: "string list option \<Rightarrow> string \<Rightarrow> string list option \<times> string" where
  "get_next_filename outputs_dir extension =
     (let listing = (case outputs_dir of None \<Rightarrow> [] | Some names \<Rightarrow> names);
          existing_files = filter (\<lambda>f. endswith f extension) listing;
          current_numbers = current_numbers_loop existing_files [];
          next_number = max_default current_numbers 0 + 1
      in (Some listing, ''outputs/'' @ format_05d next_number @ extension))"



section \<open>Files\<close>

text \<open>
  The file system is a list of paths with what is stored there. Paths are compared as
  strings, one name per file. A video file is known by what \<^verbatim>\<open>cv2.VideoCapture\<close>
  reports for it (frame rate, frame width and height, number of frames) and by the frames
  that \<^verbatim>\<open>cap.read()\<close> yields in order; a video that the pipeline or the
  interpolation program wrote is opaque.
\<close>

record video =
  video_fps :: rat
  video_width :: int
  video_height :: int
  video_frame_count :: int
  video_frames :: "image list"

datatype fs_node =
    Directory
  | TextFile string
  | ImageFile image
  | VideoFile video
  | GeneratedVideo

type_synonym filesystem = "(string \<times> fs_node) list"

definition path_exists :: "filesystem \<Rightarrow> string \<Rightarrow> bool" where
  "path_exists files p = (map_of files p \<noteq> None)"

definition isdir :: "filesystem \<Rightarrow> string \<Rightarrow> bool" where
  "isdir files p = (map_of files p = Some Directory)"

definition write_file :: "filesystem \<Rightarrow> string \<Rightarrow> fs_node \<Rightarrow> filesystem" where
  "write_file files p f = (p, f) # filter (\<lambda>entry. fst entry \<noteq> p) files"

text \<open>
  The code calls \<^verbatim>\<open>os.makedirs\<close> only after \<^verbatim>\<open>os.path.exists\<close> has answered
  no; \<open>makedirs\<close> is the two together.
\<close>

definition makedirs :: "filesystem \<Rightarrow> string \<Rightarrow> filesystem" where
  "makedirs files p = (if path_exists files p then files else files @ [(p, Directory)])"

definition path_join :: "string \<Rightarrow> string \<Rightarrow> string" where
  "path_join a b =
     (if take 1 b = ''/'' then b
      else if a = [] \<or> last a = CHR ''/'' then a @ b
      else a @ ''/'' @ b)"

definition basename :: "string \<Rightarrow> string" where
  "basename p = drop (nat (rfind p CHR ''/'' + 1)) p"

definition child_name :: "string \<Rightarrow> string \<Rightarrow> string list" where
  "child_name d p =
     (let pre = path_join d [];
          name = drop (length pre) p
      in if take (length pre) p = pre \<and> name \<noteq> [] \<and> CHR ''/'' \<notin> set name then [name] else [])"

definition listdir :: "filesystem \<Rightarrow> string \<Rightarrow> string list" where
  "listdir files d = concat (map (\<lambda>entry. child_name d (fst entry)) files)"

section \<open>Auto crop of a video (App.py, lines 207-263)\<close>

text \<open>
  A frame is an array of shape (height, width, 3), an \<open>image\<close> here.
  \<^verbatim>\<open>cv2.resize(frame, (w, h))\<close> returns a frame of the requested size. The slice
  \<^verbatim>\<open>frame[y0:y1, x0:x1]\<close> follows the rules of Python for slices: a negative
  bound counts from the end, and both bounds are cut to the length of the axis.
\<close>

definition slice_bound :: "int \<Rightarrow> int \<Rightarrow> int" where
  "slice_bound n i = (if i < 0 then max (i + n) 0 else min i n)"

definition array_slice :: "image \<Rightarrow> int \<Rightarrow> int \<Rightarrow> int \<Rightarrow> int \<Rightarrow> image" where
  "array_slice frame y0 y1 x0 x1 =
     (case image_size frame of (w, h) \<Rightarrow>
        let t = slice_bound h y0; b = max t (slice_bound h y1);
            l = slice_bound w x0; r = max l (slice_bound w x1)
        in Crop frame (l, t, r, b))"

text \<open>
  The loop reads frames until \<open>desired_frame_count\<close> of them are written or the source
  has no more; \<open>written\<close> is what \<^verbatim>\<open>out.write\<close> has been given so far.
\<close>

fun auto_crop_video_loop ::
  "image list \<Rightarrow> bool \<Rightarrow> int \<Rightarrow> int \<Rightarrow> int \<Rightarrow> int \<Rightarrow> int \<Rightarrow> int \<Rightarrow> image list \<Rightarrow> image list" where
  "auto_crop_video_loop [] downscale new_width new_height target_width target_height
       desired_frame_count frame_count written = written"
| "auto_crop_video_loop (frame # source) downscale new_width new_height target_width target_height
       desired_frame_count frame_count written =
     (if frame_count < desired_frame_count then
        let frame1 = (if downscale then Resize frame (new_width, new_height) else frame)
        in case image_size frame1 of (w, h) \<Rightarrow>
          let frame2 =
            (if w > target_width \<or> h > target_height then
               let left = (w - target_width) div 2;
                   top = (h - target_height) div 2
               in array_slice frame1 top (top + target_height) left (left + target_width)
             else Resize frame1 (target_width, target_height))
          in auto_crop_video_loop source downscale new_width new_height target_width target_height
               desired_frame_count (frame_count + 1) (written @ [frame2])
      else written)"

definition auto_crop_video ::
  "(rat \<Rightarrow> rat) \<Rightarrow> filesystem \<Rightarrow> string \<Rightarrow> int \<Rightarrow> int \<Rightarrow> int \<Rightarrow> rat
     \<Rightarrow> py_exception + (filesystem \<times> string)" where
  "auto_crop_video rnd files video_path target_width target_height desired_frame_count desired_fps =
     (case map_of files video_path of
        Some (VideoFile cap) \<Rightarrow>
          let orig_width = video_width cap;
              orig_height = video_height cap
          in if orig_width = 0 \<or> orig_height = 0 then Inl ZeroDivisionError
             else
               let scale = min (rnd 1) (min (rnd (of_int target_width / of_int orig_width))
                                            (rnd (of_int target_height / of_int orig_height)));
                   new_width = float_to_int (rnd (of_int orig_width * scale));
                   new_height = float_to_int (rnd (of_int orig_height * scale));
                   out_path = fst (splitext video_path) @ ''_cropped.mp4'';
                   written = auto_crop_video_loop (video_frames cap) (scale < rnd 1)
                     new_width new_height target_width target_height desired_frame_count 0 []
               in Inr (write_file files out_path
                         (VideoFile \<lparr>video_fps = desired_fps, video_width = target_width,
                            video_height = target_height,
                            video_frame_count = int (length written),
                            video_frames = written\<rparr>),
                       out_path)
      | _ \<Rightarrow> Inr (files, video_path))"

section \<open>The state of the application and its surroundings\<close>

text \<open>
  The configuration dictionary \<^verbatim>\<open>current_config\<close> is a record of its five entries;
  the global \<^verbatim>\<open>loaded_pipeline_config\<close> holds such a dictionary or the empty one
  (\<open>None\<close> here). A pipeline object is known by the arguments it was loaded with. The
  LoRA scale is the number the slider gives.
\<close>

record config =
  cfg_model_choice :: string
  cfg_torch_dtype :: string
  cfg_num_persistent :: string
  cfg_lora_model :: "string option"
  cfg_lora_alpha :: rat

datatype pipeline = WanVideoPipeline string string string "string option" rat

text \<open>
  What the program does to the world outside, in order: every read of a cancellation
  flag by a loop (with the value read), every call of \<^verbatim>\<open>load_wan_pipeline\<close>, every call of the loaded
  pipeline (with its seed and prompt), and every file written.
\<close>

datatype pipeline_input = NoInput | VideoInput string | ImageInput image

datatype event =
    ReadCancelFlag bool
  | LoadPipeline string string string "string option" rat
  | CallPipeline pipeline_input int string
  | SaveVideo string
  | SaveImage string
  | WriteText string
  | RunRife string string

record world =
  loaded_pipeline :: "pipeline option"
  loaded_pipeline_config :: "config option"
  cancel_flag :: bool
  cancel_batch_flag :: bool
  disk :: filesystem
  trace :: "event list"

text \<open>
  What the surroundings decide. The cancel buttons run \<^verbatim>\<open>cancel_generation\<close> and
  \<^verbatim>\<open>cancel_batch_process\<close> while a loop is running: \<open>cancel_pressed k\<close> tells whether
  the flag was set between the previous read of the flag (or the reset at the start of the
  call) and the read that follows \<open>k\<close> earlier reads. \<open>entropy k\<close> is the raw number behind
  the \<open>k\<close>-th random draw, \<open>rife_ok\<close> whether the interpolation program exits with
  status zero, \<open>rounding\<close> the rounding of float arithmetic.
\<close>

record env =
  cancel_pressed :: "nat \<Rightarrow> bool"
  cancel_batch_pressed :: "nat \<Rightarrow> bool"
  entropy :: "nat \<Rightarrow> nat"
  rife_ok :: bool
  rounding :: "rat \<Rightarrow> rat"

text \<open>
  The parameters of \<^verbatim>\<open>generate_videos\<close> and \<^verbatim>\<open>batch_process_videos\<close> that the
  control flow, the seed, the configuration and the file names depend on, under the names
  of the source (\<open>prompt\<close> is \<^verbatim>\<open>default_prompt\<close> in the batch function). The other
  parameters (target language, negative prompt, denoising strength, quality, frame rate,
  VRAM preset, aspect ratio, tiling, inference steps, CFG scale, sigma shift) are only
  handed on to the pipeline and to the writers of files. Numbers from sliders and number
  fields are integers.
\<close>

record params =
  prompt :: string
  input_image :: "image option"
  input_video :: "string option"
  num_generations :: int
  save_prompt :: bool
  multi_line :: bool
  use_random_seed :: bool
  seed_input :: string
  model_choice_radio :: string
  num_persistent_input :: string
  torch_dtype :: string
  num_frames :: int
  width :: int
  height :: int
  auto_crop :: bool
  pr_rife_enabled :: bool
  pr_rife_radio :: string
  lora_model :: string
  lora_alpha :: rat
  folder_path :: string
  batch_output_folder :: string
  skip_overwrite :: bool

text \<open>
  The log is the list of its entries; the durations and the exact wording of the lines are
  left out. A function returns a fixed message or the log as its status text.
\<close>

datatype log_entry =
    LogCancelled
  | LogGenerating nat int string
  | LogSavedImage string
  | LogSavedVideo string
  | LogSavedPrompt string
  | LogRife string string
  | LogUsedVram string
  | LogComplete "int option"
  | LogBatchUnsupported
  | LogNoFolder string
  | LogCreatedFolder string
  | LogFound nat string
  | LogBatchCancelled
  | LogNoPromptFile string
  | LogEmptyPromptFile string
  | LogPromptFile string string
  | LogSkipped string string
  | LogProcessing string int
  | LogOpenFailed string

datatype status_text = Message string | LogText "log_entry list"

text \<open>
  How a step of a loop ends: it goes on with the next step, it returns from the function,
  it leaves the loop (\<^verbatim>\<open>break\<close>), or it raises.
\<close>

datatype ('s, 'r) flow = Next 's | Return 'r | Break 's | Raise py_exception

definition emit :: "event \<Rightarrow> world \<Rightarrow> world" where
  "emit ev w = w\<lparr>trace := trace w @ [ev]\<rparr>"

definition reset_pipeline :: "world \<Rightarrow> world" where
  "reset_pipeline w = w\<lparr>loaded_pipeline := None, loaded_pipeline_config := None\<rparr>"

section \<open>Loading the pipeline (App.py, lines 794-893, 371-394 and 592-610)\<close>

definition load_wan_pipeline ::
  "string \<Rightarrow> string \<Rightarrow> string \<Rightarrow> string option \<Rightarrow> rat \<Rightarrow> py_exception + pipeline" where
  "load_wan_pipeline model_choice torch_dtype_str num_persistent lora_path alpha =
     (if model_choice = ''1.3B'' \<or> model_choice = ''14B_text''
         \<or> model_choice = ''14B_image_720p'' \<or> model_choice = ''14B_image_480p''
      then Inr (WanVideoPipeline model_choice torch_dtype_str num_persistent lora_path alpha)
      else Inl ValueError)"

definition effective_lora_model :: "params \<Rightarrow> string option" where
  "effective_lora_model a =
     (if lora_model a = ''None'' \<or> lora_model a = [] then None
      else Some (path_join ''LoRAs'' (lora_model a)))"

definition current_config :: "string \<Rightarrow> params \<Rightarrow> config" where
  "current_config model_choice a =
     \<lparr>cfg_model_choice = model_choice,
      cfg_torch_dtype = torch_dtype a,
      cfg_num_persistent = num_persistent_input a,
      cfg_lora_model = effective_lora_model a,
      cfg_lora_alpha = lora_alpha a\<rparr>"

text \<open>
  The block that both functions share: the pipeline is loaded when none is loaded or the
  configuration at hand differs from the one stored; the stored one is replaced after
  the load has returned.
\<close>

definition reload_if_changed :: "string \<Rightarrow> params \<Rightarrow> world \<Rightarrow> py_exception + world" where
  "reload_if_changed model_choice a w =
     (if loaded_pipeline w = None \<or> loaded_pipeline_config w \<noteq> Some (current_config model_choice a)
      then
        let w1 = emit (LoadPipeline model_choice (torch_dtype a) (num_persistent_input a)
                         (effective_lora_model a) (lora_alpha a)) w
        in case load_wan_pipeline model_choice (torch_dtype a) (num_persistent_input a)
                  (effective_lora_model a) (lora_alpha a) of
             Inl e \<Rightarrow> Inl e
           | Inr pipe \<Rightarrow>
               Inr (w1\<lparr>loaded_pipeline := Some pipe,
                        loaded_pipeline_config := Some (current_config model_choice a)\<rparr>)
      else Inr w)"

section \<open>The seed (App.py, lines 425-432 and 664-670)\<close>

text \<open>
  \<^verbatim>\<open>random.randint(lo, hi)\<close> returns some integer from \<open>lo\<close> to \<open>hi\<close>, both included;
  which one is decided by the raw number the surroundings supply. \<^verbatim>\<open>str(n)\<close> is the
  decimal numeral with its sign.
\<close>

definition randint :: "int \<Rightarrow> int \<Rightarrow> nat \<Rightarrow> int" where
  "randint lo hi raw = lo + int raw mod (hi - lo + 1)"

definition str_int :: "int \<Rightarrow> string" where
  "str_int n = (if n < 0 then CHR ''-'' # digits_nat (nat (- n)) else digits_nat (nat n))"

text \<open>
  The expression under \<^verbatim>\<open>try\<close> and the handler: \<^verbatim>\<open>int\<close> may raise, and
  \<^verbatim>\<open>except Exception\<close> turns whatever was raised into the seed 0.
\<close>

definition seed_of_input :: "string \<Rightarrow> py_exception + int" where
  "seed_of_input text = (if strip text \<noteq> [] then py_int text else Inr 0)"

definition current_seed :: "bool \<Rightarrow> string \<Rightarrow> nat \<Rightarrow> int" where
  "current_seed random text raw =
     (if random then randint 0 (2 ^ 32 - 1) raw
      else case seed_of_input text of Inr n \<Rightarrow> n | Inl e \<Rightarrow> 0)"

definition seed_text :: "int option \<Rightarrow> string" where
  "seed_text last_used_seed =
     (case last_used_seed of
        None \<Rightarrow> []
      | Some n \<Rightarrow> if n = 0 then [] else str_int n)"

section \<open>Writers of files and the interpolation program\<close>

definition save_video :: "string \<Rightarrow> world \<Rightarrow> world" where
  "save_video filename w =
     emit (SaveVideo filename) (w\<lparr>disk := write_file (disk w) filename GeneratedVideo\<rparr>)"

definition save_image :: "string \<Rightarrow> image \<Rightarrow> world \<Rightarrow> world" where
  "save_image filename img w =
     emit (SaveImage filename) (w\<lparr>disk := write_file (disk w) filename (ImageFile img)\<rparr>)"

text \<open>
  The text file written beside a video: of its lines, the ones with the prompt and the
  seed are kept.
\<close>

definition generation_details :: "string \<Rightarrow> int \<Rightarrow> string" where
  "generation_details p seed = ''Prompt: '' @ p @ [CHR 0x0A] @ ''Seed: '' @ str_int seed @ [CHR 0x0A]"

definition write_text :: "string \<Rightarrow> string \<Rightarrow> world \<Rightarrow> world" where
  "write_text filename content w =
     emit (WriteText filename) (w\<lparr>disk := write_file (disk w) filename (TextFile content)\<rparr>)"

text \<open>
  \<^verbatim>\<open>subprocess.run(cmd, shell=True, check=True)\<close> raises when the program fails;
  otherwise the improved video is on the disk.
\<close>

definition apply_rife :: "env \<Rightarrow> string \<Rightarrow> string \<Rightarrow> world \<Rightarrow> world \<times> (py_exception + string)" where
  "apply_rife environment folder video_path w =
     (let improved_video = path_join folder (''improved_'' @ basename video_path);
          w1 = emit (RunRife video_path improved_video) w
      in if rife_ok environment
         then (w1\<lparr>disk := write_file (disk w1) improved_video GeneratedVideo\<rparr>, Inr improved_video)
         else (w1, Inl CalledProcessError))"

text \<open>
  \<open>get_next_filename\<close> on the disk: it lists the folder \<^verbatim>\<open>outputs\<close>, which it creates
  when nothing of that name exists; listing something that is not a folder raises.
\<close>

definition next_video_filename :: "world \<Rightarrow> py_exception + (world \<times> string)" where
  "next_video_filename w =
     (if path_exists (disk w) ''outputs'' \<and> \<not> isdir (disk w) ''outputs'' then Inl OSError
      else
        let outputs_dir =
              (if path_exists (disk w) ''outputs'' then Some (listdir (disk w) ''outputs'') else None)
        in Inr (w\<lparr>disk := makedirs (disk w) ''outputs''\<rparr>,
                snd (get_next_filename outputs_dir ''.mp4'')))"

section \<open>Generation of videos (App.py, lines 288-544)\<close>

record loop_state =
  iteration :: nat
  log_text :: "log_entry list"
  last_used_seed :: "int option"
  last_video_path :: string

type_synonym result = "string \<times> status_text \<times> string"

definition effective_model :: "string \<Rightarrow> string option" where
  "effective_model radio =
     (if radio = ''WAN 2.1 1.3B (Text/Video-to-Video)'' then Some ''1.3B''
      else if radio = ''WAN 2.1 14B Text-to-Video'' then Some ''14B_text''
      else if radio = ''WAN 2.1 14B Image-to-Video 720P'' then Some ''14B_image_720p''
      else if radio = ''WAN 2.1 14B Image-to-Video 480P'' then Some ''14B_image_480p''
      else None)"

text \<open>
  Lines 337 to 367: the frame count, and the crop of the input video or the copy of the
  input image. The result is the world, the variable \<^verbatim>\<open>original_image\<close> (\<open>None\<close>
  while it is unbound) and the variable \<^verbatim>\<open>input_video\<close>.
\<close>

definition preprocess ::
  "env \<Rightarrow> params \<Rightarrow> string \<Rightarrow> world \<Rightarrow> py_exception + (world \<times> image option \<times> string option)" where
  "preprocess environment a model_choice w =
     (let video = (if model_choice = ''1.3B'' then input_video a else None);
          effective_num_frames =
            (case video of
               None \<Rightarrow> num_frames a
             | Some original_video_path \<Rightarrow>
                 (case map_of (disk w) original_video_path of
                    Some (VideoFile cap) \<Rightarrow> min (num_frames a) (video_frame_count cap)
                  | _ \<Rightarrow> num_frames a))
      in if auto_crop a then
           (case video of
              Some input_video_path \<Rightarrow>
                (case auto_crop_video (rounding environment) (disk w) input_video_path
                        (width a) (height a) effective_num_frames 16 of
                   Inl e \<Rightarrow> Inl e
                 | Inr (disk1, cropped_path) \<Rightarrow> Inr (w\<lparr>disk := disk1\<rparr>, None, Some cropped_path))
            | None \<Rightarrow>
                if input_image a \<noteq> None
                   \<and> (model_choice = ''14B_image_720p'' \<or> model_choice = ''14B_image_480p'')
                then Inr (w, input_image a, input_video a)
                else Inr (w, None, input_video a))
         else Inr (w, input_image a, input_video a))"

text \<open>
  \<^verbatim>\<open>str.splitlines\<close> on the ASCII line boundaries, and the list of prompts of lines
  396 to 399.
\<close>

definition is_linebreak :: "char \<Rightarrow> bool" where
  "is_linebreak c = (c \<in> set [CHR 0x0A, CHR 0x0B, CHR 0x0C, CHR 0x0D, CHR 0x1C, CHR 0x1D, CHR 0x1E])"

fun splitlines_from :: "string \<Rightarrow> string \<Rightarrow> string list" where
  "splitlines_from line [] = (if line = [] then [] else [line])"
| "splitlines_from line [c] = (if is_linebreak c then [line] else [line @ [c]])"
| "splitlines_from line (c # d # cs) =
     (if c = CHR 0x0D \<and> d = CHR 0x0A then line # splitlines_from [] cs
      else if is_linebreak c then line # splitlines_from [] (d # cs)
      else splitlines_from (line @ [c]) (d # cs))"

definition splitlines :: "string \<Rightarrow> string list" where
  "splitlines s = splitlines_from [] s"

definition prompts_list :: "params \<Rightarrow> string list" where
  "prompts_list a =
     (if multi_line a then map strip (filter (\<lambda>line. strip line \<noteq> []) (splitlines (prompt a)))
      else [strip (prompt a)])"

text \<open>Lines 406 to 414: what the loop does once it has read the flag as set.\<close>

definition cancel_return :: "params \<Rightarrow> loop_state \<Rightarrow> world \<Rightarrow> world \<times> (loop_state, result) flow" where
  "cancel_return a ls w =
     (reset_pipeline w,
      Return ([],
              LogText (log_text ls @ [LogCancelled, LogUsedVram (num_persistent_input a),
                                     LogComplete (last_used_seed ls)]),
              seed_text (last_used_seed ls)))"

text \<open>
  Lines 448 to 489: the call of the pipeline for the model at hand. It yields the name of
  the next video, or returns the error of a missing image or of an unknown model.
\<close>

definition processed_image :: "env \<Rightarrow> params \<Rightarrow> image option \<Rightarrow> py_exception + image" where
  "processed_image environment a original_image =
     (case original_image of
        None \<Rightarrow> Inl UnboundLocalError
      | Some img \<Rightarrow>
          if auto_crop a then auto_crop_image (rounding environment) img (width a) (height a)
          else Inr img)"

definition model_branch ::
  "env \<Rightarrow> params \<Rightarrow> string \<Rightarrow> image option \<Rightarrow> string option \<Rightarrow> string \<Rightarrow> int \<Rightarrow> loop_state \<Rightarrow> world
     \<Rightarrow> world \<times> (loop_state \<times> string, result) flow" where
  "model_branch environment a model_choice original_image video p seed ls w =
     (if model_choice = ''1.3B'' \<or> model_choice = ''14B_text'' then
        let w1 = emit (CallPipeline
                   (case (if model_choice = ''1.3B'' then video else None) of
                      Some input_video_path \<Rightarrow> VideoInput input_video_path
                    | None \<Rightarrow> NoInput) seed p) w
        in (case next_video_filename w1 of
              Inl e \<Rightarrow> (w1, Raise e)
            | Inr (w2, video_filename) \<Rightarrow> (w2, Next (ls, video_filename)))
      else if model_choice = ''14B_image_720p'' \<or> model_choice = ''14B_image_480p'' then
        (if input_image a = None then
           (reset_pipeline w,
            Return ([], Message ''[CMD] Error: Image model selected but no image provided.'',
                    seed_text (last_used_seed ls)))
         else
           (case processed_image environment a original_image of
              Inl e \<Rightarrow> (w, Raise e)
            | Inr img \<Rightarrow>
                (case next_video_filename w of
                   Inl e \<Rightarrow> (w, Raise e)
                 | Inr (w1, video_filename) \<Rightarrow>
                     let w2 = w1\<lparr>disk := makedirs (disk w1) ''auto_pre_processed_images''\<rparr>;
                         base_name = fst (splitext (basename video_filename));
                         preprocessed_image_filename =
                           path_join ''auto_pre_processed_images'' (base_name @ ''.png'');
                         w3 = save_image preprocessed_image_filename img w2;
                         ls1 = ls\<lparr>log_text := log_text ls @ [LogSavedImage preprocessed_image_filename]\<rparr>;
                         w4 = emit (CallPipeline (ImageInput img) seed p) w3
                     in (w4, Next (ls1, video_filename)))))
      else
        (reset_pipeline w,
         Return ([], Message ''[CMD] Invalid combination of inputs.'', seed_text (last_used_seed ls))))"

text \<open>Lines 406 to 522: one turn of the inner loop, for the prompt \<open>p\<close>.\<close>

definition generate_iteration ::
  "env \<Rightarrow> params \<Rightarrow> string \<Rightarrow> image option \<Rightarrow> string option \<Rightarrow> string \<Rightarrow> loop_state \<Rightarrow> world
     \<Rightarrow> world \<times> (loop_state, result) flow" where
  "generate_iteration environment a model_choice original_image video p ls w =
     (let flag = (cancel_flag w \<or> cancel_pressed environment (iteration ls));
          w0 = emit (ReadCancelFlag flag) (w\<lparr>cancel_flag := flag\<rparr>)
      in if flag then cancel_return a ls w0
         else
           let seed = current_seed (use_random_seed a) (seed_input a) (entropy environment (iteration ls));
               ls1 = ls\<lparr>iteration := iteration ls + 1,
                        log_text := log_text ls @ [LogGenerating (iteration ls + 1) seed p],
                        last_used_seed := Some seed\<rparr>
           in (case model_branch environment a model_choice original_image video p seed ls1 w0 of
                 (w1, Next (ls2, video_filename)) \<Rightarrow>
                   let w2 = save_video video_filename w1;
                       ls3 = ls2\<lparr>log_text := log_text ls2 @ [LogSavedVideo video_filename]\<rparr>;
                       text_filename = fst (splitext video_filename) @ ''.txt'';
                       w3 = (if save_prompt a
                             then write_text text_filename (generation_details p seed) w2 else w2);
                       ls4 = (if save_prompt a
                              then ls3\<lparr>log_text := log_text ls3 @ [LogSavedPrompt text_filename]\<rparr>
                              else ls3)
                   in (w3, Next (ls4\<lparr>last_video_path := video_filename\<rparr>))
               | (w1, Return r) \<Rightarrow> (w1, Return r)
               | (w1, Break (ls2, video_filename)) \<Rightarrow> (w1, Break ls2)
               | (w1, Raise e) \<Rightarrow> (w1, Raise e)))"

text \<open>
  The two loops of lines 404 and 405: \<^verbatim>\<open>range(int(num_generations))\<close> turns for
  each prompt.
\<close>

fun generations_loop ::
  "env \<Rightarrow> params \<Rightarrow> string \<Rightarrow> image option \<Rightarrow> string option \<Rightarrow> string \<Rightarrow> nat \<Rightarrow> loop_state \<Rightarrow> world
     \<Rightarrow> world \<times> (loop_state, result) flow" where
  "generations_loop environment a model_choice original_image video p 0 ls w = (w, Next ls)"
| "generations_loop environment a model_choice original_image video p (Suc i) ls w =
     (case generate_iteration environment a model_choice original_image video p ls w of
        (w1, Next ls1) \<Rightarrow> generations_loop environment a model_choice original_image video p i ls1 w1
      | (w1, other) \<Rightarrow> (w1, other))"

fun prompts_loop ::
  "env \<Rightarrow> params \<Rightarrow> string \<Rightarrow> image option \<Rightarrow> string option \<Rightarrow> string list \<Rightarrow> loop_state \<Rightarrow> world
     \<Rightarrow> world \<times> (loop_state, result) flow" where
  "prompts_loop environment a model_choice original_image video [] ls w = (w, Next ls)"
| "prompts_loop environment a model_choice original_image video (p # ps) ls w =
     (case generations_loop environment a model_choice original_image video p
             (nat (num_generations a)) ls w of
        (w1, Next ls1) \<Rightarrow> prompts_loop environment a model_choice original_image video ps ls1 w1
      | (w1, other) \<Rightarrow> (w1, other))"

text \<open>Lines 524 to 544: the interpolation of the last video and the normal return.\<close>

definition finish :: "env \<Rightarrow> params \<Rightarrow> loop_state \<Rightarrow> world \<Rightarrow> world \<times> (py_exception + result)" where
  "finish environment a ls w =
     (if pr_rife_enabled a \<and> last_video_path ls \<noteq> [] then
        (case apply_rife environment ''outputs'' (last_video_path ls) w of
           (w1, Inl e) \<Rightarrow> (w1, Inl e)
         | (w1, Inr improved_video) \<Rightarrow>
             (reset_pipeline w1,
              Inr (improved_video,
                   LogText (log_text ls @ [LogRife (pr_rife_radio a) improved_video,
                              LogUsedVram (num_persistent_input a), LogComplete (last_used_seed ls)]),
                   seed_text (last_used_seed ls))))
      else
        (reset_pipeline w,
         Inr (last_video_path ls,
              LogText (log_text ls @ [LogUsedVram (num_persistent_input a),
                         LogComplete (last_used_seed ls)]),
              seed_text (last_used_seed ls))))"

definition generate_videos :: "env \<Rightarrow> params \<Rightarrow> world \<Rightarrow> world \<times> (py_exception + result)" where
  "generate_videos environment a w =
     (let w0 = w\<lparr>cancel_flag := False\<rparr>
      in case effective_model (model_choice_radio a) of
           None \<Rightarrow> (w0, Inr ([], Message ''Invalid model choice.'', []))
         | Some model_choice \<Rightarrow>
             (case preprocess environment a model_choice w0 of
                Inl e \<Rightarrow> (w0, Inl e)
              | Inr (w1, original_image, video) \<Rightarrow>
                  (case reload_if_changed model_choice a w1 of
                     Inl e \<Rightarrow> (w1, Inl e)
                   | Inr w2 \<Rightarrow>
                       (case prompts_loop environment a model_choice original_image video
                               (prompts_list a)
                               \<lparr>iteration = 0, log_text = [], last_used_seed = None,
                                  last_video_path = []\<rparr> w2 of
                          (w3, Next ls) \<Rightarrow> finish environment a ls w3
                        | (w3, Return r) \<Rightarrow> (w3, Inr r)
                        | (w3, Break ls) \<Rightarrow> finish environment a ls w3
                        | (w3, Raise e) \<Rightarrow> (w3, Inl e)))))"

section \<open>Batch processing of a folder of images (App.py, lines 557-747)\<close>

definition lower :: "string \<Rightarrow> string" where
  "lower s =
     map (\<lambda>c. case map_of (zip ''ABCDEFGHIJKLMNOPQRSTUVWXYZ'' ''abcdefghijklmnopqrstuvwxyz'') c of
               Some l \<Rightarrow> l
             | None \<Rightarrow> c) s"

definition is_image_name :: "string \<Rightarrow> bool" where
  "is_image_name f = (lower (snd (splitext f)) \<in> set [''.jpg'', ''.png'', ''.jpeg''])"

text \<open>
  Lines 641 to 656: the prompt of an image is the stripped content of the text file of the
  same base name, and the prompt of the form when that file is missing or blank. Opening
  something that is not a text file raises.
\<close>

definition read_prompt ::
  "params \<Rightarrow> string \<Rightarrow> filesystem \<Rightarrow> py_exception + (string \<times> log_entry)" where
  "read_prompt a image_file files =
     (let base = fst (splitext image_file);
          prompt_path = path_join (folder_path a) (base @ ''.txt'')
      in if \<not> path_exists files prompt_path then Inr (prompt a, LogNoPromptFile image_file)
         else
           (case map_of files prompt_path of
              Some (TextFile content) \<Rightarrow>
                if strip content = [] then Inr (prompt a, LogEmptyPromptFile (base @ ''.txt''))
                else Inr (strip content, LogPromptFile image_file (strip content))
            | _ \<Rightarrow> Inl OSError))"

text \<open>
  Lines 672 to 742: the work on one image once it is open: the pipeline, the video, the
  preprocessed image, the text file and the interpolation.
\<close>

definition batch_generate ::
  "env \<Rightarrow> params \<Rightarrow> string \<Rightarrow> string \<Rightarrow> int \<Rightarrow> image \<Rightarrow> log_entry list \<Rightarrow> world
     \<Rightarrow> world \<times> (log_entry list, log_entry list) flow" where
  "batch_generate environment a output_filename prompt_content seed img entries w =
     (let w1 = emit (CallPipeline (ImageInput img) seed prompt_content) w;
          w2 = save_video output_filename w1;
          log1 = entries @ [LogSavedVideo output_filename];
          base_name = fst (splitext (basename output_filename));
          preprocessed_image_filename = path_join ''auto_pre_processed_images'' (base_name @ ''.png'');
          w3 = (if auto_crop a
                then save_image preprocessed_image_filename img
                       (w2\<lparr>disk := makedirs (disk w2) ''auto_pre_processed_images''\<rparr>)
                else w2);
          log2 = (if auto_crop a then log1 @ [LogSavedImage preprocessed_image_filename] else log1);
          text_filename = fst (splitext output_filename) @ ''.txt'';
          w4 = (if save_prompt a
                then write_text text_filename (generation_details prompt_content seed) w3 else w3);
          log3 = (if save_prompt a then log2 @ [LogSavedPrompt text_filename] else log2)
      in if pr_rife_enabled a then
           (case apply_rife environment (batch_output_folder a) output_filename w4 of
              (w5, Inl e) \<Rightarrow> (w5, Raise e)
            | (w5, Inr improved_video) \<Rightarrow>
                (w5, Next (log3 @ [LogRife (pr_rife_radio a) improved_video])))
         else (w4, Next log3))"

text \<open>Lines 635 to 742: one turn of the loop, for the \<open>k\<close>-th image of the folder.\<close>

definition batch_iteration ::
  "env \<Rightarrow> params \<Rightarrow> string \<Rightarrow> nat \<Rightarrow> log_entry list \<Rightarrow> world
     \<Rightarrow> world \<times> (log_entry list, log_entry list) flow" where
  "batch_iteration environment a image_file k entries w =
     (let flag = (cancel_batch_flag w \<or> cancel_batch_pressed environment k);
          w0 = emit (ReadCancelFlag flag) (w\<lparr>cancel_batch_flag := flag\<rparr>)
      in if flag then (w0, Break (entries @ [LogBatchCancelled]))
         else
           (case read_prompt a image_file (disk w0) of
              Inl e \<Rightarrow> (w0, Raise e)
            | Inr (prompt_content, entry) \<Rightarrow>
                let base = fst (splitext image_file);
                    output_filename = path_join (batch_output_folder a) (base @ ''.mp4'')
                in if skip_overwrite a \<and> path_exists (disk w0) output_filename
                   then (w0, Next (entries @ [entry, LogSkipped output_filename image_file]))
                   else
                     let seed = current_seed (use_random_seed a) (seed_input a) (entropy environment k);
                         log1 = entries @ [entry, LogProcessing image_file seed]
                     in (case map_of (disk w0) (path_join (folder_path a) image_file) of
                           Some (ImageFile image_obj) \<Rightarrow>
                             (case (if auto_crop a
                                    then auto_crop_image (rounding environment) image_obj (width a) (height a)
                                    else Inr image_obj) of
                                Inl e \<Rightarrow> (w0, Raise e)
                              | Inr img \<Rightarrow>
                                  batch_generate environment a output_filename prompt_content seed img log1 w0)
                         | _ \<Rightarrow> (w0, Next (log1 @ [LogOpenFailed image_file])))))"

fun batch_loop ::
  "env \<Rightarrow> params \<Rightarrow> string list \<Rightarrow> nat \<Rightarrow> log_entry list \<Rightarrow> world
     \<Rightarrow> world \<times> (log_entry list, log_entry list) flow" where
  "batch_loop environment a [] k entries w = (w, Next entries)"
| "batch_loop environment a (image_file # images) k entries w =
     (case batch_iteration environment a image_file k entries w of
        (w1, Next log1) \<Rightarrow> batch_loop environment a images (Suc k) log1 w1
      | (w1, other) \<Rightarrow> (w1, other))"

definition batch_process_videos ::
  "env \<Rightarrow> params \<Rightarrow> world \<Rightarrow> world \<times> (py_exception + log_entry list)" where
  "batch_process_videos environment a w =
     (let w0 = w\<lparr>cancel_batch_flag := False\<rparr>
      in if model_choice_radio a \<noteq> ''WAN 2.1 14B Image-to-Video 720P''
            \<and> model_choice_radio a \<noteq> ''WAN 2.1 14B Image-to-Video 480P''
         then (w0, Inr [LogBatchUnsupported])
         else
           let model_choice =
                 (if model_choice_radio a = ''WAN 2.1 14B Image-to-Video 720P''
                  then ''14B_image_720p'' else ''14B_image_480p'')
           in (case reload_if_changed model_choice a w0 of
                 Inl e \<Rightarrow> (w0, Inl e)
               | Inr w1 \<Rightarrow>
                   if \<not> isdir (disk w1) (folder_path a)
                   then (w1, Inr [LogNoFolder (folder_path a)])
                   else
                     let created = (\<not> path_exists (disk w1) (batch_output_folder a));
                         w2 = w1\<lparr>disk := makedirs (disk w1) (batch_output_folder a)\<rparr>;
                         images = filter is_image_name (listdir (disk w2) (folder_path a));
                         entries = (if created then [LogCreatedFolder (batch_output_folder a)] else [])
                               @ [LogFound (length images) (folder_path a)]
                     in (case batch_loop environment a images 0 entries w2 of
                           (w3, Next log1) \<Rightarrow> (reset_pipeline w3, Inr log1)
                         | (w3, Break log1) \<Rightarrow> (reset_pipeline w3, Inr log1)
                         | (w3, Return r) \<Rightarrow> (w3, Inr r)
                         | (w3, Raise e) \<Rightarrow> (w3, Inl e))))"

section \<open>Properties of traces\<close>

text \<open>
  The events of the body of a loop turn that works with the seed \<open>seed\<close>: no read of a
  flag, no load of a pipeline, and calls of the pipeline with that seed only.
\<close>

fun body_event :: "int \<Rightarrow> event \<Rightarrow> bool" where
  "body_event seed (ReadCancelFlag b) = False"
| "body_event seed (LoadPipeline m t n l s) = False"
| "body_event seed (CallPipeline inp s q) = (s = seed)"
| "body_event seed (SaveVideo f) = True"
| "body_event seed (SaveImage f) = True"
| "body_event seed (WriteText f) = True"
| "body_event seed (RunRife f g) = True"

fun is_load :: "event \<Rightarrow> bool" where
  "is_load (LoadPipeline m t n l s) = True"
| "is_load ev = False"

fun is_read :: "event \<Rightarrow> bool" where
  "is_read (ReadCancelFlag b) = True"
| "is_read ev = False"

text \<open>Nothing follows a read of the flag that found it set.\<close>

fun stops_at_cancel :: "event list \<Rightarrow> bool" where
  "stops_at_cancel [] = True"
| "stops_at_cancel (ev # evs) = (if ev = ReadCancelFlag True then evs = [] else stops_at_cancel evs)"

text \<open>The names of the videos saved, in order.\<close>

fun saved_videos :: "event list \<Rightarrow> string list" where
  "saved_videos [] = []"
| "saved_videos (SaveVideo f # evs) = f # saved_videos evs"
| "saved_videos (ev # evs) = saved_videos evs"

text \<open>
  The surroundings in which nobody presses a cancel button, the random numbers are all
  zero, the interpolation program works and arithmetic is exact; the parameters as the
  form shows them at the start (lines 945-1030), with a prompt; the state of the program
  at its start (lines 929-933), on an empty disk.
\<close>

definition quiet_env :: env where
  "quiet_env =
     \<lparr>cancel_pressed = (\<lambda>k. False), cancel_batch_pressed = (\<lambda>k. False), entropy = (\<lambda>k. 0),
      rife_ok = True, rounding = (\<lambda>x. x)\<rparr>"

definition form_defaults :: params where
  "form_defaults =
     \<lparr>prompt = ''a cat'', input_image = None, input_video = None, num_generations = 1,
      save_prompt = True, multi_line = False, use_random_seed = True, seed_input = [],
      model_choice_radio = ''WAN 2.1 1.3B (Text/Video-to-Video)'',
      num_persistent_input = ''12000000000'', torch_dtype = ''torch.bfloat16'', num_frames = 81,
      width = 832, height = 480, auto_crop = True, pr_rife_enabled = True,
      pr_rife_radio = ''2x FPS'', lora_model = ''None'', lora_alpha = 1,
      folder_path = ''batch_inputs'', batch_output_folder = ''batch_outputs'',
      skip_overwrite = True\<rparr>"

definition initial_world :: world where
  "initial_world =
     \<lparr>loaded_pipeline = None, loaded_pipeline_config = None, cancel_flag = False,
      cancel_batch_flag = False, disk = [], trace = []\<rparr>"

text \<open>
  What holds of a run of generation loop turns from the world \<open>w\<close>: the trace has grown
  by events that stop at a read of a set flag and load nothing; when the run goes on or
  raises, no flag was read as set and the pipeline globals are as before; when it returns
  from the function, the video path returned is empty and the pipeline globals are reset.
\<close>

definition generate_inv :: "world \<Rightarrow> world \<times> (loop_state, result) flow \<Rightarrow> bool" where
  "generate_inv w out =
     (\<exists>new. trace (fst out) = trace w @ new \<and> stops_at_cancel new
        \<and> list_all (\<lambda>ev. \<not> is_load ev) new
        \<and> (case snd out of
              Next ls \<Rightarrow> ReadCancelFlag True \<notin> set new
                \<and> loaded_pipeline (fst out) = loaded_pipeline w
                \<and> loaded_pipeline_config (fst out) = loaded_pipeline_config w
            | Return r \<Rightarrow> fst r = [] \<and> loaded_pipeline (fst out) = None
                \<and> loaded_pipeline_config (fst out) = None
            | Break ls \<Rightarrow> False
            | Raise e \<Rightarrow> ReadCancelFlag True \<notin> set new))"

text \<open>
  What holds of a run of batch loop turns from the world \<open>w\<close>: the trace has grown by
  events that stop at a read of a set flag and load nothing; the pipeline globals are as
  before; no path has left the disk; every video saved is on the disk; and, when
  overwriting is to be skipped, the videos saved are pairwise different and none of them
  was on the disk before. Unless the run has left the loop, no flag was read as set.
\<close>

definition batch_inv ::
  "params \<Rightarrow> world \<Rightarrow> world \<times> (log_entry list, log_entry list) flow \<Rightarrow> bool" where
  "batch_inv a w out =
     (\<exists>new. trace (fst out) = trace w @ new \<and> stops_at_cancel new
        \<and> list_all (\<lambda>ev. \<not> is_load ev) new
        \<and> loaded_pipeline (fst out) = loaded_pipeline w
        \<and> loaded_pipeline_config (fst out) = loaded_pipeline_config w
        \<and> (\<forall>p. path_exists (disk w) p \<longrightarrow> path_exists (disk (fst out)) p)
        \<and> (\<forall>f \<in> set (saved_videos new). path_exists (disk (fst out)) f)
        \<and> (skip_overwrite a \<longrightarrow>
              distinct (saved_videos new)
              \<and> (\<forall>f \<in> set (saved_videos new). \<not> path_exists (disk w) f))
        \<and> (case snd out of
              Next entries \<Rightarrow> ReadCancelFlag True \<notin> set new
            | Return r \<Rightarrow> False
            | Break entries \<Rightarrow> True
            | Raise e \<Rightarrow> ReadCancelFlag True \<notin> set new))"

section \<open>The dispatch tables\<close>

lemma dict_get_absent: "k \<notin> fst ` set d \<Longrightarrow> dict_get d k dflt = dflt"
  by (simp add: dict_get_def map_of_eq_None_iff [THEN iffD2])

lemma vram_1_3b:
  "map (update_vram_and_resolution ''WAN 2.1 1.3B (Text/Video-to-Video)'') vram_presets =
     map (\<lambda>v. (v, [''1:1'', ''4:3'', ''3:4'', ''3:2'', ''2:3'', ''16:9'', ''9:16'', ''21:9'',
                     ''9:21'', ''4:5'', ''5:4''], ''16:9''))
       [''0'', ''500000000'', ''1000000000'', ''7000000000'', ''7000000000'', ''7000000000'',
        ''7000000000'', ''7000000000'', ''12000000000'', ''12000000000'']"
  by (simp add: update_vram_and_resolution_def vram_presets_def dict_get_def dict_keys_def
      ASPECT_RATIOS_1_3b_def)

lemma vram_14b_text:
  "map (update_vram_and_resolution ''WAN 2.1 14B Text-to-Video'') vram_presets =
     map (\<lambda>v. (v, [''1:1'', ''4:3'', ''3:4'', ''3:2'', ''2:3'', ''16:9'', ''16:9_low'', ''9:16'',
                     ''9:16_low'', ''21:9'', ''9:21'', ''4:5'', ''5:4''], ''16:9''))
       [''0'', ''0'', ''0'', ''0'', ''0'', ''0'', ''3000000000'', ''6500000000'',
        ''22000000000'', ''70000000000'']"
  by (simp add: update_vram_and_resolution_def vram_presets_def dict_get_def dict_keys_def
      ASPECT_RATIOS_14b_def)

lemma vram_14b_720p:
  "map (update_vram_and_resolution ''WAN 2.1 14B Image-to-Video 720P'') vram_presets =
     map (\<lambda>v. (v, [''1:1'', ''4:3'', ''3:4'', ''3:2'', ''2:3'', ''16:9'', ''16:9_low'', ''9:16'',
                     ''9:16_low'', ''21:9'', ''9:21'', ''4:5'', ''5:4''], ''16:9''))
       [''0'', ''0'', ''0'', ''0'', ''0'', ''0'', ''0'', ''3500000000'',
        ''12000000000'', ''70000000000'']"
  by (simp add: update_vram_and_resolution_def vram_presets_def dict_get_def dict_keys_def
      ASPECT_RATIOS_14b_def)

lemma vram_14b_480p:
  "map (update_vram_and_resolution ''WAN 2.1 14B Image-to-Video 480P'') vram_presets =
     map (\<lambda>v. (v, [''1:1'', ''4:3'', ''3:4'', ''3:2'', ''2:3'', ''16:9'', ''9:16'', ''21:9'',
                     ''9:21'', ''4:5'', ''5:4''], ''16:9''))
       [''0'', ''0'', ''0'', ''0'', ''0'', ''1200000000'', ''5000000000'', ''9500000000'',
        ''20000000000'', ''70000000000'']"
  by (simp add: update_vram_and_resolution_def vram_presets_def dict_get_def dict_keys_def
      ASPECT_RATIOS_1_3b_def)

lemma vram_default:
  assumes "preset \<notin> set vram_presets"
  shows "fst (update_vram_and_resolution model_choice preset) = ''12000000000''"
proof -
  have absent: "\<And>d. fst ` set d = set vram_presets \<Longrightarrow> dict_get d preset ''12000000000'' = ''12000000000''"
    using assms by (simp add: dict_get_absent)
  show ?thesis
    unfolding update_vram_and_resolution_def
    by (simp add: absent vram_presets_def del: set_simps) (simp add: absent vram_presets_def)
qed

text \<open>
  Claim C7. The resource tables are a fixed dispatch. For each of the four recognised
  model choices, the ten VRAM presets of the form (4GB to 80GB, in the order of the radio
  button) are mapped to the numeric strings of that model's table, together with the key
  list of the aspect-ratio dictionary of the model (\<open>ASPECT_RATIOS_1_3b\<close> for the 1.3B
  and the 14B 480P image model, \<open>ASPECT_RATIOS_14b\<close> for the other two) and the default
  aspect \<open>16:9\<close>. A preset outside the ten yields \<open>12000000000\<close>, whatever the model.
\<close>

theorem update_vram_and_resolution_dispatch:
  "map (update_vram_and_resolution ''WAN 2.1 1.3B (Text/Video-to-Video)'') vram_presets =
     map (\<lambda>v. (v, dict_keys ASPECT_RATIOS_1_3b, ''16:9''))
       [''0'', ''500000000'', ''1000000000'', ''7000000000'', ''7000000000'', ''7000000000'',
        ''7000000000'', ''7000000000'', ''12000000000'', ''12000000000'']
   \<and> map (update_vram_and_resolution ''WAN 2.1 14B Text-to-Video'') vram_presets =
     map (\<lambda>v. (v, dict_keys ASPECT_RATIOS_14b, ''16:9''))
       [''0'', ''0'', ''0'', ''0'', ''0'', ''0'', ''3000000000'', ''6500000000'',
        ''22000000000'', ''70000000000'']
   \<and> map (update_vram_and_resolution ''WAN 2.1 14B Image-to-Video 720P'') vram_presets =
     map (\<lambda>v. (v, dict_keys ASPECT_RATIOS_14b, ''16:9''))
       [''0'', ''0'', ''0'', ''0'', ''0'', ''0'', ''0'', ''3500000000'',
        ''12000000000'', ''70000000000'']
   \<and> map (update_vram_and_resolution ''WAN 2.1 14B Image-to-Video 480P'') vram_presets =
     map (\<lambda>v. (v, dict_keys ASPECT_RATIOS_1_3b, ''16:9''))
       [''0'', ''0'', ''0'', ''0'', ''0'', ''1200000000'', ''5000000000'', ''9500000000'',
        ''20000000000'', ''70000000000'']
   \<and> dict_keys ASPECT_RATIOS_1_3b =
       [''1:1'', ''4:3'', ''3:4'', ''3:2'', ''2:3'', ''16:9'', ''9:16'', ''21:9'', ''9:21'',
        ''4:5'', ''5:4'']
   \<and> dict_keys ASPECT_RATIOS_14b =
       [''1:1'', ''4:3'', ''3:4'', ''3:2'', ''2:3'', ''16:9'', ''16:9_low'', ''9:16'',
        ''9:16_low'', ''21:9'', ''9:21'', ''4:5'', ''5:4'']
   \<and> (\<forall>model_choice preset. preset \<notin> set vram_presets \<longrightarrow>
         fst (update_vram_and_resolution model_choice preset) = ''12000000000'')"
proof -
  have k13: "dict_keys ASPECT_RATIOS_1_3b =
       [''1:1'', ''4:3'', ''3:4'', ''3:2'', ''2:3'', ''16:9'', ''9:16'', ''21:9'', ''9:21'',
        ''4:5'', ''5:4'']"
    by (simp add: dict_keys_def ASPECT_RATIOS_1_3b_def)
  have k14: "dict_keys ASPECT_RATIOS_14b =
       [''1:1'', ''4:3'', ''3:4'', ''3:2'', ''2:3'', ''16:9'', ''16:9_low'', ''9:16'',
        ''9:16_low'', ''21:9'', ''9:21'', ''4:5'', ''5:4'']"
    by (simp add: dict_keys_def ASPECT_RATIOS_14b_def)
  show ?thesis
    unfolding k13 k14
    using vram_1_3b vram_14b_text vram_14b_720p vram_14b_480p vram_default by blast
qed

theorem update_vram_and_resolution_dispatch_witness:
  "''2GB'' \<notin> set vram_presets
   \<and> fst (update_vram_and_resolution ''WAN 2.1 14B Text-to-Video'' ''2GB'') = ''12000000000''"
proof -
  have out: "''2GB'' \<notin> set vram_presets"
    by (simp add: vram_presets_def)
  from update_vram_and_resolution_dispatch
  have "\<forall>model_choice preset. preset \<notin> set vram_presets \<longrightarrow>
         fst (update_vram_and_resolution model_choice preset) = ''12000000000''"
    by (elim conjE)
  with out show ?thesis by blast
qed

section \<open>Auto crop of an image\<close>

lemma crop_margins:
  "0 \<le> (w - ((w - n) div 2 + n)) - (w - n) div 2
   \<and> (w - ((w - n) div 2 + n)) - (w - n) div 2 \<le> (1::int)"
  by presburger

text \<open>
  Claim C1. For an image of positive width \<open>w\<close> and height \<open>h\<close> and positive target
  dimensions, \<open>auto_crop_image\<close> raises nothing and returns an image of exactly the target
  dimensions, made by a crop followed by a resize. When the computed ratio \<open>w / h\<close> exceeds
  the computed target ratio, the crop keeps the full height and a band of columns whose
  left and right margins differ by at most one (the remainder of the integer division);
  when it is below, the crop keeps the full width and a band of rows whose top and bottom
  margins differ by at most one; when the two are equal, the image is resized uncropped.
  The ratios are the ones the code computes, with any rounding \<open>rnd\<close> that is monotone and
  keeps zero, as rounding to the nearest double is.
\<close>

theorem auto_crop_image_center:
  fixes w h target_width target_height :: int
  assumes rnd: "mono rnd" "rnd 0 = 0"
    and pos: "0 < w" "0 < h" "0 < target_width" "0 < target_height"
    and sz: "image_size img = (w, h)"
  shows "\<exists>out. auto_crop_image rnd img target_width target_height = Inr out
      \<and> image_size out = (target_width, target_height)
      \<and> (rnd (of_int w / of_int h) > rnd (of_int target_width / of_int target_height) \<longrightarrow>
           (\<exists>left right. out = Resize (Crop img (left, 0, right, h)) (target_width, target_height)
              \<and> right - left =
                  float_to_int (rnd (of_int h * rnd (of_int target_width / of_int target_height)))
              \<and> 0 \<le> (w - right) - left \<and> (w - right) - left \<le> 1))
      \<and> (rnd (of_int w / of_int h) < rnd (of_int target_width / of_int target_height) \<longrightarrow>
           (\<exists>top bottom. out = Resize (Crop img (0, top, w, bottom)) (target_width, target_height)
              \<and> bottom - top =
                  float_to_int (rnd (of_int w / rnd (of_int target_width / of_int target_height)))
              \<and> 0 \<le> (h - bottom) - top \<and> (h - bottom) - top \<le> 1))
      \<and> (rnd (of_int w / of_int h) = rnd (of_int target_width / of_int target_height) \<longrightarrow>
           out = Resize img (target_width, target_height))"
proof -
  let ?t = "rnd (of_int target_width / of_int target_height)"
  let ?c = "rnd (of_int w / of_int h)"
  have "(0::rat) \<le> of_int w / of_int h" using pos by simp
  with rnd have c0: "0 \<le> ?c" by (metis monoD)
  consider (wide) "?c > ?t" | (tall) "?c < ?t" | (same) "?c = ?t" by linarith
  then show ?thesis
  proof cases
    case wide
    then show ?thesis
      using pos sz crop_margins [of w "float_to_int (rnd (of_int h * ?t))"]
      by (simp add: auto_crop_image_def Let_def)
  next
    case tall
    with c0 have "?t \<noteq> 0" by linarith
    with tall show ?thesis
      using pos sz crop_margins [of h "float_to_int (rnd (of_int w / ?t))"]
      by (simp add: auto_crop_image_def Let_def)
  next
    case same
    then show ?thesis
      using pos sz by (simp add: auto_crop_image_def Let_def)
  qed
qed

text \<open>
  A 1920 by 1080 image cropped to a square target: the theorem alone fixes the box, the
  columns 420 to 1500.
\<close>

theorem auto_crop_image_center_witness:
  "mono (\<lambda>x::rat. x) \<and> image_size (Pixels 1920 1080) = (1920, 1080)
   \<and> auto_crop_image (\<lambda>x. x) (Pixels 1920 1080) 640 640 =
       Inr (Resize (Crop (Pixels 1920 1080) (420, 0, 1500, 1080)) (640, 640))"
proof -
  have m: "mono (\<lambda>x::rat. x)" by (simp add: mono_def)
  have s: "image_size (Pixels 1920 1080) = (1920, 1080)" by simp
  have wide: "(of_int 1920 / of_int 1080 :: rat) > of_int 640 / of_int 640" by simp
  have n: "float_to_int (of_int 1080 * (of_int 640 / of_int 640)) = 1080"
    by (simp add: float_to_int_def)
  from auto_crop_image_center [of "\<lambda>x. x" 1920 1080 640 640 "Pixels 1920 1080", OF m _ _ _ _ _ s]
  obtain out left right where
    out: "auto_crop_image (\<lambda>x. x) (Pixels 1920 1080) 640 640 = Inr out"
    and box: "out = Resize (Crop (Pixels 1920 1080) (left, 0, right, 1080)) (640, 640)"
      "right - left = 1080" "0 \<le> (1920 - right) - left" "(1920 - right) - left \<le> 1"
    using wide n by auto
  from box(2-4) have "left = 420" "right = 1500" by presburger+
  with out box(1) m s show ?thesis by simp
qed

section \<open>Decimal numerals: formatting and parsing are inverse\<close>


























section \<open>The next output file name\<close>

















section \<open>The trace of the helpers\<close>

lemma emit_fields [simp]:
  "trace (emit ev w) = trace w @ [ev]"
  "disk (emit ev w) = disk w"
  "loaded_pipeline (emit ev w) = loaded_pipeline w"
  "loaded_pipeline_config (emit ev w) = loaded_pipeline_config w"
  "cancel_flag (emit ev w) = cancel_flag w"
  "cancel_batch_flag (emit ev w) = cancel_batch_flag w"
  by (simp_all add: emit_def)

lemma reset_pipeline_fields [simp]:
  "trace (reset_pipeline w) = trace w"
  "disk (reset_pipeline w) = disk w"
  "loaded_pipeline (reset_pipeline w) = None"
  "loaded_pipeline_config (reset_pipeline w) = None"
  "cancel_flag (reset_pipeline w) = cancel_flag w"
  "cancel_batch_flag (reset_pipeline w) = cancel_batch_flag w"
  by (simp_all add: reset_pipeline_def)

lemma save_video_fields [simp]:
  "trace (save_video f w) = trace w @ [SaveVideo f]"
  "disk (save_video f w) = write_file (disk w) f GeneratedVideo"
  "loaded_pipeline (save_video f w) = loaded_pipeline w"
  "loaded_pipeline_config (save_video f w) = loaded_pipeline_config w"
  "cancel_flag (save_video f w) = cancel_flag w"
  "cancel_batch_flag (save_video f w) = cancel_batch_flag w"
  by (simp_all add: save_video_def)

lemma save_image_fields [simp]:
  "trace (save_image f img w) = trace w @ [SaveImage f]"
  "disk (save_image f img w) = write_file (disk w) f (ImageFile img)"
  "loaded_pipeline (save_image f img w) = loaded_pipeline w"
  "loaded_pipeline_config (save_image f img w) = loaded_pipeline_config w"
  "cancel_flag (save_image f img w) = cancel_flag w"
  "cancel_batch_flag (save_image f img w) = cancel_batch_flag w"
  by (simp_all add: save_image_def)

lemma write_text_fields [simp]:
  "trace (write_text f t w) = trace w @ [WriteText f]"
  "disk (write_text f t w) = write_file (disk w) f (TextFile t)"
  "loaded_pipeline (write_text f t w) = loaded_pipeline w"
  "loaded_pipeline_config (write_text f t w) = loaded_pipeline_config w"
  "cancel_flag (write_text f t w) = cancel_flag w"
  "cancel_batch_flag (write_text f t w) = cancel_batch_flag w"
  by (simp_all add: write_text_def)

lemma apply_rife_fields:
  "trace (fst (apply_rife environment folder v w)) =
     trace w @ [RunRife v (path_join folder (''improved_'' @ basename v))]"
  "loaded_pipeline (fst (apply_rife environment folder v w)) = loaded_pipeline w"
  "loaded_pipeline_config (fst (apply_rife environment folder v w)) = loaded_pipeline_config w"
  "cancel_flag (fst (apply_rife environment folder v w)) = cancel_flag w"
  "cancel_batch_flag (fst (apply_rife environment folder v w)) = cancel_batch_flag w"
  by (simp_all add: apply_rife_def Let_def)

lemma next_video_filename_fields:
  assumes "next_video_filename w = Inr (w1, f)"
  shows "trace w1 = trace w" "loaded_pipeline w1 = loaded_pipeline w"
    "loaded_pipeline_config w1 = loaded_pipeline_config w"
    "cancel_flag w1 = cancel_flag w" "cancel_batch_flag w1 = cancel_batch_flag w"
  using assms by (auto simp: next_video_filename_def Let_def split: if_splits)

section \<open>One turn of the generation loop\<close>

lemma model_branch_cases:
  obtains (ret) m where
      "model_branch environment a model_choice original_image video p seed ls w =
         (reset_pipeline w, Return ([], Message m, seed_text (last_used_seed ls)))"
  | (raise) w1 e evs where
      "model_branch environment a model_choice original_image video p seed ls w = (w1, Raise e)"
      "trace w1 = trace w @ evs" "list_all (body_event seed) evs"
  | (nxt) w1 ls1 f evs where
      "model_branch environment a model_choice original_image video p seed ls w = (w1, Next (ls1, f))"
      "trace w1 = trace w @ evs" "list_all (body_event seed) evs"
      "loaded_pipeline w1 = loaded_pipeline w"
      "loaded_pipeline_config w1 = loaded_pipeline_config w"
      "cancel_flag w1 = cancel_flag w" "cancel_batch_flag w1 = cancel_batch_flag w"
      "iteration ls1 = iteration ls" "last_used_seed ls1 = last_used_seed ls"
proof -
  let ?mb = "model_branch environment a model_choice original_image video p seed ls w"
  consider (plain) "model_choice = ''1.3B'' \<or> model_choice = ''14B_text''"
    | (img) "\<not> (model_choice = ''1.3B'' \<or> model_choice = ''14B_text'')"
        "model_choice = ''14B_image_720p'' \<or> model_choice = ''14B_image_480p''"
    | (other) "\<not> (model_choice = ''1.3B'' \<or> model_choice = ''14B_text'')"
        "\<not> (model_choice = ''14B_image_720p'' \<or> model_choice = ''14B_image_480p'')"
    by blast
  then show ?thesis
  proof cases
    case plain
    define inp where "inp = (case (if model_choice = ''1.3B'' then video else None) of
        Some input_video_path \<Rightarrow> VideoInput input_video_path | None \<Rightarrow> NoInput)"
    define w1 where "w1 = emit (CallPipeline inp seed p) w"
    have mb: "?mb = (case next_video_filename w1 of
                Inl e \<Rightarrow> (w1, Raise e)
              | Inr (w2, video_filename) \<Rightarrow> (w2, Next (ls, video_filename)))"
      unfolding model_branch_def w1_def inp_def using plain by (simp add: Let_def)
    have t1: "trace w1 = trace w @ [CallPipeline inp seed p]" by (simp add: w1_def)
    show ?thesis
    proof (cases "next_video_filename w1")
      case (Inl e)
      with mb have "?mb = (w1, Raise e)" by simp
      then show ?thesis using t1 by (rule raise) simp
    next
      case (Inr r)
      obtain w2 f where r: "r = (w2, f)" by (cases r)
      with Inr mb have eq: "?mb = (w2, Next (ls, f))" by simp
      from Inr r have n: "next_video_filename w1 = Inr (w2, f)" by simp
      show ?thesis
        using eq
        by (rule nxt [where evs = "[CallPipeline inp seed p]"])
          (simp_all add: next_video_filename_fields [OF n] w1_def)
    qed
  next
    case img
    show ?thesis
    proof (cases "input_image a = None")
      case True
      with img have "?mb = (reset_pipeline w,
          Return ([], Message ''[CMD] Error: Image model selected but no image provided.'',
                  seed_text (last_used_seed ls)))"
        by (simp add: model_branch_def)
      then show ?thesis by (rule ret)
    next
      case False
      show ?thesis
      proof (cases "processed_image environment a original_image")
        case (Inl e)
        with img False have "?mb = (w, Raise e)" by (simp add: model_branch_def)
        then show ?thesis by (rule raise [where evs = "[]"]) simp_all
      next
        case pi: (Inr im)
        show ?thesis
        proof (cases "next_video_filename w")
          case (Inl e)
          with img False pi have "?mb = (w, Raise e)" by (simp add: model_branch_def)
          then show ?thesis by (rule raise [where evs = "[]"]) simp_all
        next
          case (Inr r)
          obtain w1 f where r: "r = (w1, f)" by (cases r)
          from Inr r have n: "next_video_filename w = Inr (w1, f)" by simp
          define fn where "fn = path_join ''auto_pre_processed_images''
              (fst (splitext (basename f)) @ ''.png'')"
          define w4 where "w4 = emit (CallPipeline (ImageInput im) seed p)
              (save_image fn im (w1\<lparr>disk := makedirs (disk w1) ''auto_pre_processed_images''\<rparr>))"
          define ls1 where "ls1 = ls\<lparr>log_text := log_text ls @ [LogSavedImage fn]\<rparr>"
          from img False pi n have eq: "?mb = (w4, Next (ls1, f))"
            by (simp add: model_branch_def Let_def w4_def ls1_def fn_def)
          show ?thesis
            using eq
            by (rule nxt [where evs = "[SaveImage fn, CallPipeline (ImageInput im) seed p]"])
              (simp_all add: w4_def ls1_def next_video_filename_fields [OF n])
        qed
      qed
    qed
  next
    case other
    then have "?mb = (reset_pipeline w,
        Return ([], Message ''[CMD] Invalid combination of inputs.'', seed_text (last_used_seed ls)))"
      by (simp add: model_branch_def)
    then show ?thesis by (rule ret)
  qed
qed

lemma generate_iteration_cases:
  fixes environment a model_choice original_image video p ls w
  defines "flag \<equiv> cancel_flag w \<or> cancel_pressed environment (iteration ls)"
    and "seed \<equiv> current_seed (use_random_seed a) (seed_input a) (entropy environment (iteration ls))"
  obtains (cancelled)
      "flag"
      "generate_iteration environment a model_choice original_image video p ls w =
         cancel_return a ls (emit (ReadCancelFlag True) (w\<lparr>cancel_flag := True\<rparr>))"
  | (returned) m where
      "\<not> flag"
      "generate_iteration environment a model_choice original_image video p ls w =
         (reset_pipeline (emit (ReadCancelFlag False) (w\<lparr>cancel_flag := False\<rparr>)),
          Return ([], Message m, seed_text (Some seed)))"
  | (raised) w1 e evs where
      "\<not> flag"
      "generate_iteration environment a model_choice original_image video p ls w = (w1, Raise e)"
      "trace w1 = trace w @ ReadCancelFlag False # evs" "list_all (body_event seed) evs"
  | (went_on) w1 ls1 evs where
      "\<not> flag"
      "generate_iteration environment a model_choice original_image video p ls w = (w1, Next ls1)"
      "trace w1 = trace w @ ReadCancelFlag False # evs" "list_all (body_event seed) evs"
      "loaded_pipeline w1 = loaded_pipeline w"
      "loaded_pipeline_config w1 = loaded_pipeline_config w"
      "cancel_flag w1 = False" "cancel_batch_flag w1 = cancel_batch_flag w"
      "iteration ls1 = iteration ls + 1" "last_used_seed ls1 = Some seed"
proof (cases flag)
  case True
  then have "generate_iteration environment a model_choice original_image video p ls w =
      cancel_return a ls (emit (ReadCancelFlag True) (w\<lparr>cancel_flag := True\<rparr>))"
    unfolding generate_iteration_def flag_def by (simp add: Let_def)
  with True show ?thesis by (rule cancelled)
next
  case False
  define w0 where "w0 = emit (ReadCancelFlag False) (w\<lparr>cancel_flag := False\<rparr>)"
  define ls0 where "ls0 = ls\<lparr>iteration := iteration ls + 1,
      log_text := log_text ls @ [LogGenerating (iteration ls + 1) seed p],
      last_used_seed := Some seed\<rparr>"
  let ?mb = "model_branch environment a model_choice original_image video p seed ls0 w0"
  have gi: "generate_iteration environment a model_choice original_image video p ls w =
      (case ?mb of
         (w1, Next (ls2, video_filename)) \<Rightarrow>
           let w2 = save_video video_filename w1;
               ls3 = ls2\<lparr>log_text := log_text ls2 @ [LogSavedVideo video_filename]\<rparr>;
               text_filename = fst (splitext video_filename) @ ''.txt'';
               w3 = (if save_prompt a
                     then write_text text_filename (generation_details p seed) w2 else w2);
               ls4 = (if save_prompt a
                      then ls3\<lparr>log_text := log_text ls3 @ [LogSavedPrompt text_filename]\<rparr>
                      else ls3)
           in (w3, Next (ls4\<lparr>last_video_path := video_filename\<rparr>))
       | (w1, Return r) \<Rightarrow> (w1, Return r)
       | (w1, Break (ls2, video_filename)) \<Rightarrow> (w1, Break ls2)
       | (w1, Raise e) \<Rightarrow> (w1, Raise e))"
    using False unfolding generate_iteration_def flag_def seed_def w0_def ls0_def Let_def
    by simp
  have t0: "trace w0 = trace w @ [ReadCancelFlag False]" by (simp add: w0_def)
  show ?thesis
  proof (cases rule: model_branch_cases
      [of environment a model_choice original_image video p seed ls0 w0])
    case (ret m)
    then have "generate_iteration environment a model_choice original_image video p ls w =
        (reset_pipeline w0, Return ([], Message m, seed_text (Some seed)))"
      by (simp add: gi ls0_def)
    with False show ?thesis unfolding w0_def by (rule returned)
  next
    case (raise w1 e evs)
    then have "generate_iteration environment a model_choice original_image video p ls w = (w1, Raise e)"
      by (simp add: gi)
    with False show ?thesis
      by (rule raised [where evs = evs]) (simp_all add: raise t0)
  next
    case (nxt w1 ls1 f evs)
    define w3 where "w3 = (if save_prompt a
        then write_text (fst (splitext f) @ ''.txt'') (generation_details p seed) (save_video f w1)
        else save_video f w1)"
    define ls4 where "ls4 =
        (if save_prompt a
         then ls1\<lparr>log_text := log_text ls1 @ [LogSavedVideo f]\<rparr>
                \<lparr>log_text := log_text (ls1\<lparr>log_text := log_text ls1 @ [LogSavedVideo f]\<rparr>)
                    @ [LogSavedPrompt (fst (splitext f) @ ''.txt'')]\<rparr>
         else ls1\<lparr>log_text := log_text ls1 @ [LogSavedVideo f]\<rparr>)\<lparr>last_video_path := f\<rparr>"
    from nxt(1) have eq: "generate_iteration environment a model_choice original_image video p ls w =
        (w3, Next ls4)"
      by (simp add: gi Let_def w3_def ls4_def)
    define evs1 where "evs1 = evs @ SaveVideo f #
        (if save_prompt a then [WriteText (fst (splitext f) @ ''.txt'')] else [])"
    from False eq show ?thesis
    proof (rule went_on [where evs = evs1])
      show "trace w3 = trace w @ ReadCancelFlag False # evs1"
        using nxt(2) t0 by (simp add: w3_def evs1_def)
      show "list_all (body_event seed) evs1"
        using nxt(3) by (simp add: evs1_def)
      show "loaded_pipeline w3 = loaded_pipeline w" using nxt(4) by (simp add: w3_def w0_def)
      show "loaded_pipeline_config w3 = loaded_pipeline_config w"
        using nxt(5) by (simp add: w3_def w0_def)
      show "cancel_flag w3 = False" using nxt(6) by (simp add: w3_def w0_def)
      show "cancel_batch_flag w3 = cancel_batch_flag w" using nxt(7) by (simp add: w3_def w0_def)
      show "iteration ls4 = iteration ls + 1" using nxt(8) by (simp add: ls4_def ls0_def)
      show "last_used_seed ls4 = Some seed" using nxt(9) by (simp add: ls4_def ls0_def)
    qed
  qed
qed

section \<open>The generation loops\<close>

lemma body_events_props:
  assumes "list_all (body_event seed) evs"
  shows "ReadCancelFlag b \<notin> set evs" and "list_all (\<lambda>ev. \<not> is_load ev) evs"
    and "stops_at_cancel evs"
  using assms
proof (induction evs)
  case Nil
  {
    case 1 show ?case by simp
  next
    case 2 show ?case by simp
  next
    case 3 show ?case by simp
  }
next
  case (Cons ev evs)
  {
    case 1 with Cons.IH(1) show ?case by (cases ev) auto
  next
    case 2 with Cons.IH(2) show ?case by (cases ev) auto
  next
    case 3 with Cons.IH(3) show ?case by (cases ev) auto
  }
qed

lemma stops_at_cancel_append:
  "ReadCancelFlag True \<notin> set xs \<Longrightarrow> stops_at_cancel (xs @ ys) = stops_at_cancel ys"
  by (induction xs) auto


lemma generate_inv_refl: "generate_inv w (w, Next ls)"
  by (simp add: generate_inv_def)

lemma generate_inv_trans:
  assumes "generate_inv w (w1, Next ls1)" and "generate_inv w1 out"
  shows "generate_inv w out"
proof -
  from assms(1) obtain new1 where n1: "trace w1 = trace w @ new1" "stops_at_cancel new1"
    "list_all (\<lambda>ev. \<not> is_load ev) new1" "ReadCancelFlag True \<notin> set new1"
    "loaded_pipeline w1 = loaded_pipeline w" "loaded_pipeline_config w1 = loaded_pipeline_config w"
    by (auto simp: generate_inv_def)
  from assms(2) obtain new2 where n2: "trace (fst out) = trace w1 @ new2" "stops_at_cancel new2"
    "list_all (\<lambda>ev. \<not> is_load ev) new2"
    "case snd out of
       Next ls \<Rightarrow> ReadCancelFlag True \<notin> set new2
         \<and> loaded_pipeline (fst out) = loaded_pipeline w1
         \<and> loaded_pipeline_config (fst out) = loaded_pipeline_config w1
     | Return r \<Rightarrow> fst r = [] \<and> loaded_pipeline (fst out) = None
         \<and> loaded_pipeline_config (fst out) = None
     | Break ls \<Rightarrow> False
     | Raise e \<Rightarrow> ReadCancelFlag True \<notin> set new2"
    by (auto simp: generate_inv_def)
  have "trace (fst out) = trace w @ (new1 @ new2)" using n1(1) n2(1) by simp
  moreover have "stops_at_cancel (new1 @ new2)"
    using n1(4) n2(2) by (simp add: stops_at_cancel_append)
  moreover have "list_all (\<lambda>ev. \<not> is_load ev) (new1 @ new2)" using n1(3) n2(3) by simp
  moreover have "case snd out of
       Next ls \<Rightarrow> ReadCancelFlag True \<notin> set (new1 @ new2)
         \<and> loaded_pipeline (fst out) = loaded_pipeline w
         \<and> loaded_pipeline_config (fst out) = loaded_pipeline_config w
     | Return r \<Rightarrow> fst r = [] \<and> loaded_pipeline (fst out) = None
         \<and> loaded_pipeline_config (fst out) = None
     | Break ls \<Rightarrow> False
     | Raise e \<Rightarrow> ReadCancelFlag True \<notin> set (new1 @ new2)"
    using n2(4) n1(4,5,6) by (cases "snd out") auto
  ultimately show ?thesis unfolding generate_inv_def by blast
qed

lemma generate_iteration_inv:
  "generate_inv w (generate_iteration environment a model_choice original_image video p ls w)"
proof (cases rule: generate_iteration_cases [of w environment ls a model_choice original_image video p])
  case cancelled
  show ?thesis
    unfolding cancelled(2) generate_inv_def cancel_return_def
    by (rule exI [where x = "[ReadCancelFlag True]"]) simp
next
  case (returned m)
  show ?thesis
    unfolding returned(2) generate_inv_def
    by (rule exI [where x = "[ReadCancelFlag False]"]) simp
next
  case (raised w1 e evs)
  show ?thesis
    unfolding raised(2) generate_inv_def
    using raised(3) body_events_props [OF raised(4)]
    by (intro exI [where x = "ReadCancelFlag False # evs"]) simp
next
  case (went_on w1 ls1 evs)
  show ?thesis
    unfolding went_on(2) generate_inv_def
    using went_on(3,5,6) body_events_props [OF went_on(4)]
    by (intro exI [where x = "ReadCancelFlag False # evs"]) simp
qed

lemma generations_loop_inv:
  "generate_inv w (generations_loop environment a model_choice original_image video p n ls w)"
proof (induction n arbitrary: ls w)
  case 0
  show ?case by (simp add: generate_inv_refl)
next
  case (Suc n)
  let ?it = "generate_iteration environment a model_choice original_image video p ls w"
  obtain w1 fl where it: "?it = (w1, fl)" by (cases ?it)
  have inv: "generate_inv w (w1, fl)" using generate_iteration_inv [of w] it by metis
  show ?case
  proof (cases fl)
    case (Next ls1)
    with it inv Suc.IH [of w1 ls1] show ?thesis
      by (simp add: generate_inv_trans)
  qed (use it inv in simp_all)
qed

lemma prompts_loop_inv:
  "generate_inv w (prompts_loop environment a model_choice original_image video ps ls w)"
proof (induction ps arbitrary: ls w)
  case Nil
  show ?case by (simp add: generate_inv_refl)
next
  case (Cons p ps)
  let ?it = "generations_loop environment a model_choice original_image video p
      (nat (num_generations a)) ls w"
  obtain w1 fl where it: "?it = (w1, fl)" by (cases ?it)
  have inv: "generate_inv w (w1, fl)" using generations_loop_inv [of w] it by metis
  show ?case
  proof (cases fl)
    case (Next ls1)
    with it inv Cons.IH [of w1 ls1] show ?thesis
      by (simp add: generate_inv_trans)
  qed (use it inv in simp_all)
qed

section \<open>A call of \<open>generate_videos\<close>\<close>

lemma effective_model_range:
  "effective_model radio = Some model_choice \<Longrightarrow>
     model_choice = ''1.3B'' \<or> model_choice = ''14B_text''
     \<or> model_choice = ''14B_image_720p'' \<or> model_choice = ''14B_image_480p''"
  by (auto simp: effective_model_def split: if_splits)

lemma preprocess_fields:
  assumes "preprocess environment a model_choice w = Inr (w1, original_image, video)"
  shows "trace w1 = trace w" and "loaded_pipeline w1 = loaded_pipeline w"
    and "loaded_pipeline_config w1 = loaded_pipeline_config w"
proof -
  have "\<exists>d. w1 = w\<lparr>disk := d\<rparr>"
  proof (cases "auto_crop a")
    case False
    with assms have "w1 = w" by (simp add: preprocess_def Let_def)
    then have "w1 = w\<lparr>disk := disk w\<rparr>" by simp
    then show ?thesis ..
  next
    case True
    show ?thesis
    proof (cases "if model_choice = ''1.3B'' then input_video a else None")
      case None
      with True assms have "w1 = w"
        by (simp add: preprocess_def Let_def split: if_splits)
      then have "w1 = w\<lparr>disk := disk w\<rparr>" by simp
      then show ?thesis ..
    next
      case (Some path)
      with True assms show ?thesis
        by (auto simp: preprocess_def Let_def split: sum.splits)
    qed
  qed
  then obtain d where "w1 = w\<lparr>disk := d\<rparr>" ..
  then show "trace w1 = trace w" and "loaded_pipeline w1 = loaded_pipeline w"
    and "loaded_pipeline_config w1 = loaded_pipeline_config w"
    by simp_all
qed

text \<open>The events of the block that loads the pipeline.\<close>

lemma reload_if_changed_valid:
  assumes "model_choice = ''1.3B'' \<or> model_choice = ''14B_text''
     \<or> model_choice = ''14B_image_720p'' \<or> model_choice = ''14B_image_480p''"
  shows "\<exists>w1. reload_if_changed model_choice a w = Inr w1
      \<and> trace w1 = trace w @
          (if loaded_pipeline w = None
              \<or> loaded_pipeline_config w \<noteq> Some (current_config model_choice a)
           then [LoadPipeline model_choice (torch_dtype a) (num_persistent_input a)
                   (effective_lora_model a) (lora_alpha a)]
           else [])
      \<and> loaded_pipeline w1 \<noteq> None
      \<and> loaded_pipeline_config w1 = Some (current_config model_choice a)
      \<and> disk w1 = disk w \<and> cancel_flag w1 = cancel_flag w
      \<and> cancel_batch_flag w1 = cancel_batch_flag w"
proof -
  have "load_wan_pipeline model_choice (torch_dtype a) (num_persistent_input a)
      (effective_lora_model a) (lora_alpha a) =
      Inr (WanVideoPipeline model_choice (torch_dtype a) (num_persistent_input a)
        (effective_lora_model a) (lora_alpha a))"
    using assms unfolding load_wan_pipeline_def by (rule if_P)
  then show ?thesis
    by (simp add: reload_if_changed_def Let_def)
qed

lemma finish_props:
  "\<exists>fin. trace (fst (finish environment a ls w)) = trace w @ fin
     \<and> list_all (\<lambda>ev. \<not> is_load ev \<and> \<not> is_read ev) fin
     \<and> (\<forall>r. snd (finish environment a ls w) = Inr r \<longrightarrow>
           loaded_pipeline (fst (finish environment a ls w)) = None
           \<and> loaded_pipeline_config (fst (finish environment a ls w)) = None)"
proof (cases "pr_rife_enabled a \<and> last_video_path ls \<noteq> []")
  case False
  then have "finish environment a ls w =
      (reset_pipeline w,
       Inr (last_video_path ls,
            LogText (log_text ls @ [LogUsedVram (num_persistent_input a),
                       LogComplete (last_used_seed ls)]),
            seed_text (last_used_seed ls)))"
    unfolding finish_def by (rule if_not_P)
  then show ?thesis by simp
next
  case True
  let ?r = "apply_rife environment ''outputs'' (last_video_path ls) w"
  obtain w1 res where r: "?r = (w1, res)" by (cases ?r)
  from apply_rife_fields(1) [of environment "''outputs''" "last_video_path ls" w] r
  have t: "trace w1 = trace w @
      [RunRife (last_video_path ls) (path_join ''outputs'' (''improved_'' @ basename (last_video_path ls)))]"
    by simp
  show ?thesis
  proof (cases res)
    case (Inl e)
    with True r have "finish environment a ls w = (w1, Inl e)" by (simp add: finish_def)
    with t show ?thesis by simp
  next
    case (Inr v)
    with True r have "finish environment a ls w =
        (reset_pipeline w1,
         Inr (v, LogText (log_text ls @ [LogRife (pr_rife_radio a) v,
                    LogUsedVram (num_persistent_input a), LogComplete (last_used_seed ls)]),
              seed_text (last_used_seed ls)))"
      by (simp add: finish_def)
    with t show ?thesis by simp
  qed
qed

lemma not_read_stops:
  "list_all (\<lambda>ev. \<not> is_load ev \<and> \<not> is_read ev) fin \<Longrightarrow>
     ReadCancelFlag b \<notin> set fin \<and> list_all (\<lambda>ev. \<not> is_load ev) fin"
  by (induction fin) auto

lemma stops_at_cancel_none: "ReadCancelFlag True \<notin> set xs \<Longrightarrow> stops_at_cancel xs"
  by (induction xs) auto

lemma generate_videos_events:
  assumes m: "effective_model (model_choice_radio a) = Some model_choice"
    and pre: "preprocess environment a model_choice (w\<lparr>cancel_flag := False\<rparr>) =
        Inr (w1, original_image, video)"
  shows "\<exists>new. trace (fst (generate_videos environment a w)) =
        trace w @
          (if loaded_pipeline w = None
              \<or> loaded_pipeline_config w \<noteq> Some (current_config model_choice a)
           then [LoadPipeline model_choice (torch_dtype a) (num_persistent_input a)
                   (effective_lora_model a) (lora_alpha a)]
           else []) @ new
      \<and> list_all (\<lambda>ev. \<not> is_load ev) new \<and> stops_at_cancel new
      \<and> (ReadCancelFlag True \<in> set new \<longrightarrow>
            (\<exists>st sd. snd (generate_videos environment a w) = Inr ([], st, sd)))
      \<and> (\<forall>r. snd (generate_videos environment a w) = Inr r \<longrightarrow>
            loaded_pipeline (fst (generate_videos environment a w)) = None
            \<and> loaded_pipeline_config (fst (generate_videos environment a w)) = None)"
proof -
  let ?loads = "if loaded_pipeline w = None
              \<or> loaded_pipeline_config w \<noteq> Some (current_config model_choice a)
           then [LoadPipeline model_choice (torch_dtype a) (num_persistent_input a)
                   (effective_lora_model a) (lora_alpha a)]
           else []"
  note pf = preprocess_fields [OF pre]
  from reload_if_changed_valid [OF effective_model_range [OF m], of a w1]
  obtain w2 where w2: "reload_if_changed model_choice a w1 = Inr w2"
    "trace w2 = trace w @ ?loads" "loaded_pipeline w2 \<noteq> None"
    using pf by auto
  let ?loop = "prompts_loop environment a model_choice original_image video (prompts_list a)
      \<lparr>iteration = 0, log_text = [], last_used_seed = None, last_video_path = []\<rparr> w2"
  obtain w3 fl where loop: "?loop = (w3, fl)" by (cases ?loop)
  from prompts_loop_inv [of w2 environment a model_choice original_image video "prompts_list a"] loop
  have "generate_inv w2 (w3, fl)" by metis
  then obtain new where new: "trace w3 = trace w2 @ new" "stops_at_cancel new"
    "list_all (\<lambda>ev. \<not> is_load ev) new"
    and fl: "case fl of
        Next ls \<Rightarrow> ReadCancelFlag True \<notin> set new
          \<and> loaded_pipeline w3 = loaded_pipeline w2
          \<and> loaded_pipeline_config w3 = loaded_pipeline_config w2
      | Return r \<Rightarrow> fst r = [] \<and> loaded_pipeline w3 = None \<and> loaded_pipeline_config w3 = None
      | Break ls \<Rightarrow> False
      | Raise e \<Rightarrow> ReadCancelFlag True \<notin> set new"
    unfolding generate_inv_def fst_conv snd_conv by blast
  have gv: "generate_videos environment a w =
      (case fl of
         Next ls \<Rightarrow> finish environment a ls w3
       | Return r \<Rightarrow> (w3, Inr r)
       | Break ls \<Rightarrow> finish environment a ls w3
       | Raise e \<Rightarrow> (w3, Inl e))"
    using m pre w2(1) loop by (simp add: generate_videos_def Let_def split: flow.splits)
  show ?thesis
  proof (cases fl)
    case (Next ls)
    from finish_props [of environment a ls w3]
    obtain fin where fin: "trace (fst (finish environment a ls w3)) = trace w3 @ fin"
      "list_all (\<lambda>ev. \<not> is_load ev \<and> \<not> is_read ev) fin"
      "\<forall>r. snd (finish environment a ls w3) = Inr r \<longrightarrow>
           loaded_pipeline (fst (finish environment a ls w3)) = None
           \<and> loaded_pipeline_config (fst (finish environment a ls w3)) = None"
      by blast
    from fl Next have nr: "ReadCancelFlag True \<notin> set new" by simp
    have "stops_at_cancel (new @ fin)"
      using nr not_read_stops [OF fin(2), of True]
      by (simp add: stops_at_cancel_append stops_at_cancel_none)
    then show ?thesis
      using Next gv new w2(2) fin nr not_read_stops [OF fin(2), of True]
      by (intro exI [where x = "new @ fin"]) simp
  next
    case (Return r)
    obtain v st sd where r: "r = (v, st, sd)" by (cases r)
    with fl Return have "v = []" by simp
    with Return gv new w2(2) fl r show ?thesis
      by (intro exI [where x = new]) simp
  next
    case (Break ls)
    with fl show ?thesis by simp
  next
    case (Raise e)
    with gv new w2(2) fl show ?thesis
      by (intro exI [where x = new]) simp
  qed
qed

section \<open>One turn of the batch loop\<close>

lemma map_of_filter_other:
  "q \<noteq> p \<Longrightarrow> map_of (filter (\<lambda>entry. fst entry \<noteq> p) files) q = map_of files q"
  by (induction files) auto

lemma path_exists_write_file:
  "path_exists (write_file files p f) q = (q = p \<or> path_exists files q)"
  by (auto simp: path_exists_def write_file_def map_of_filter_other)

lemma path_exists_makedirs:
  "path_exists (makedirs files p) q = (q = p \<or> path_exists files q)"
  by (auto simp: path_exists_def makedirs_def map_add_def split: option.splits)

lemma saved_videos_append: "saved_videos (xs @ ys) = saved_videos xs @ saved_videos ys"
proof (induction xs)
  case Nil
  show ?case by simp
next
  case (Cons ev xs)
  then show ?case by (cases ev) simp_all
qed

lemma batch_generate_cases:
  obtains w1 fl evs where
    "batch_generate environment a output_filename prompt_content seed img entries w = (w1, fl)"
    "trace w1 = trace w @ CallPipeline (ImageInput img) seed prompt_content
        # SaveVideo output_filename # evs"
    "saved_videos evs = []" "list_all (body_event seed) evs"
    "\<And>q. path_exists (disk w) q \<Longrightarrow> path_exists (disk w1) q"
    "path_exists (disk w1) output_filename"
    "loaded_pipeline w1 = loaded_pipeline w"
    "loaded_pipeline_config w1 = loaded_pipeline_config w"
    "(\<exists>e. fl = Raise e) \<or> (\<exists>l. fl = Next l)"
proof -
  define w2 where "w2 = save_video output_filename
      (emit (CallPipeline (ImageInput img) seed prompt_content) w)"
  define fn where "fn = path_join ''auto_pre_processed_images''
      (fst (splitext (basename output_filename)) @ ''.png'')"
  define w3 where "w3 = (if auto_crop a
      then save_image fn img (w2\<lparr>disk := makedirs (disk w2) ''auto_pre_processed_images''\<rparr>)
      else w2)"
  define tn where "tn = fst (splitext output_filename) @ ''.txt''"
  define w4 where "w4 = (if save_prompt a
      then write_text tn (generation_details prompt_content seed) w3 else w3)"
  define evs4 where "evs4 = (if auto_crop a then [SaveImage fn] else [])
      @ (if save_prompt a then [WriteText tn] else [])"
  have t4: "trace w4 = trace w @ CallPipeline (ImageInput img) seed prompt_content
      # SaveVideo output_filename # evs4"
    by (simp add: w4_def w3_def w2_def evs4_def)
  have s4: "saved_videos evs4 = []" "list_all (body_event seed) evs4"
    by (simp_all add: evs4_def)
  have d4: "path_exists (disk w4) q = (q = output_filename \<or> path_exists (disk w) q
      \<or> (auto_crop a \<and> (q = fn \<or> q = ''auto_pre_processed_images''))
      \<or> (save_prompt a \<and> q = tn))" for q
    by (auto simp: w4_def w3_def w2_def path_exists_write_file path_exists_makedirs)
  have g4: "loaded_pipeline w4 = loaded_pipeline w"
    "loaded_pipeline_config w4 = loaded_pipeline_config w"
    by (simp_all add: w4_def w3_def w2_def)
  show ?thesis
  proof (cases "pr_rife_enabled a")
    case False
    then have "batch_generate environment a output_filename prompt_content seed img entries w =
        (w4, Next ((if save_prompt a
              then (if auto_crop a then (entries @ [LogSavedVideo output_filename]) @ [LogSavedImage fn]
                    else entries @ [LogSavedVideo output_filename]) @ [LogSavedPrompt tn]
              else (if auto_crop a then (entries @ [LogSavedVideo output_filename]) @ [LogSavedImage fn]
                    else entries @ [LogSavedVideo output_filename]))))"
      unfolding batch_generate_def Let_def w4_def w3_def w2_def fn_def tn_def by simp
    then show ?thesis
    proof (rule that [where evs = evs4])
      show "path_exists (disk w4) q" if "path_exists (disk w) q" for q
        using that by (simp add: d4)
      show "path_exists (disk w4) output_filename" by (simp add: d4)
    qed (use t4 s4 g4 in simp_all)
  next
    case True
    let ?r = "apply_rife environment (batch_output_folder a) output_filename w4"
    obtain w5 res where r: "?r = (w5, res)" by (cases ?r)
    define iv where "iv = path_join (batch_output_folder a) (''improved_'' @ basename output_filename)"
    from r have t5: "trace w5 = trace w4 @ [RunRife output_filename iv]"
      and g5: "loaded_pipeline w5 = loaded_pipeline w4"
        "loaded_pipeline_config w5 = loaded_pipeline_config w4"
      using apply_rife_fields(1-3) [of environment "batch_output_folder a" output_filename w4]
      by (simp_all add: iv_def)
    from r have d5: "path_exists (disk w4) q \<Longrightarrow> path_exists (disk w5) q" for q
      by (auto simp: apply_rife_def Let_def path_exists_write_file split: if_splits)
    have "\<exists>fl. batch_generate environment a output_filename prompt_content seed img entries w = (w5, fl)
        \<and> ((\<exists>e. fl = Raise e) \<or> (\<exists>l. fl = Next l))"
      using True r unfolding batch_generate_def Let_def w4_def w3_def w2_def fn_def tn_def
      by (cases res) simp_all
    then obtain fl where fl: "batch_generate environment a output_filename prompt_content seed img entries w = (w5, fl)"
      "(\<exists>e. fl = Raise e) \<or> (\<exists>l. fl = Next l)" by blast
    show ?thesis
      using fl(1)
    proof (rule that [where evs = "evs4 @ [RunRife output_filename iv]"])
      show "trace w5 = trace w @ CallPipeline (ImageInput img) seed prompt_content
          # SaveVideo output_filename # evs4 @ [RunRife output_filename iv]"
        using t4 t5 by simp
      show "saved_videos (evs4 @ [RunRife output_filename iv]) = []"
        using s4 by (simp add: saved_videos_append)
      show "list_all (body_event seed) (evs4 @ [RunRife output_filename iv])"
        using s4 by simp
      show "path_exists (disk w5) q" if "path_exists (disk w) q" for q
        using that d5 [of q] by (simp add: d4)
      show "path_exists (disk w5) output_filename"
        using d5 [of output_filename] by (simp add: d4)
      show "loaded_pipeline w5 = loaded_pipeline w" using g5 g4 by simp
      show "loaded_pipeline_config w5 = loaded_pipeline_config w" using g5 g4 by simp
      show "(\<exists>e. fl = Raise e) \<or> (\<exists>l. fl = Next l)" by (rule fl(2))
    qed
  qed
qed

lemma batch_iteration_cases:
  fixes environment a image_file k entries w
  defines "flag \<equiv> cancel_batch_flag w \<or> cancel_batch_pressed environment k"
    and "seed \<equiv> current_seed (use_random_seed a) (seed_input a) (entropy environment k)"
    and "output_filename \<equiv>
        path_join (batch_output_folder a) (fst (splitext image_file) @ ''.mp4'')"
  obtains (cancelled)
      "flag"
      "batch_iteration environment a image_file k entries w =
         (emit (ReadCancelFlag True) (w\<lparr>cancel_batch_flag := True\<rparr>),
          Break (entries @ [LogBatchCancelled]))"
  | (skipped) entry where
      "\<not> flag" "skip_overwrite a" "path_exists (disk w) output_filename"
      "batch_iteration environment a image_file k entries w =
         (emit (ReadCancelFlag False) (w\<lparr>cancel_batch_flag := False\<rparr>),
          Next (entries @ [entry, LogSkipped output_filename image_file]))"
  | (quiet) fl where
      "\<not> flag"
      "batch_iteration environment a image_file k entries w =
         (emit (ReadCancelFlag False) (w\<lparr>cancel_batch_flag := False\<rparr>), fl)"
      "(\<exists>e. fl = Raise e) \<or> (\<exists>l. fl = Next l)"
  | (generated) w1 fl evs where
      "\<not> flag" "\<not> (skip_overwrite a \<and> path_exists (disk w) output_filename)"
      "batch_iteration environment a image_file k entries w = (w1, fl)"
      "trace w1 = trace w @ ReadCancelFlag False # evs"
      "saved_videos evs = [output_filename]" "list_all (body_event seed) evs"
      "\<And>q. path_exists (disk w) q \<Longrightarrow> path_exists (disk w1) q"
      "path_exists (disk w1) output_filename"
      "loaded_pipeline w1 = loaded_pipeline w"
      "loaded_pipeline_config w1 = loaded_pipeline_config w"
      "(\<exists>e. fl = Raise e) \<or> (\<exists>l. fl = Next l)"
proof (cases flag)
  case True
  then have "batch_iteration environment a image_file k entries w =
      (emit (ReadCancelFlag True) (w\<lparr>cancel_batch_flag := True\<rparr>),
       Break (entries @ [LogBatchCancelled]))"
    unfolding batch_iteration_def flag_def by (simp add: Let_def)
  with True show ?thesis by (rule cancelled)
next
  case False
  define w0 where "w0 = emit (ReadCancelFlag False) (w\<lparr>cancel_batch_flag := False\<rparr>)"
  have d0: "disk w0 = disk w" and t0: "trace w0 = trace w @ [ReadCancelFlag False]"
    and g0: "loaded_pipeline w0 = loaded_pipeline w"
      "loaded_pipeline_config w0 = loaded_pipeline_config w"
    by (simp_all add: w0_def)
  have fl_eq: "(cancel_batch_flag w \<or> cancel_batch_pressed environment k) = False"
    using False by (simp add: flag_def)
  have bi0: "batch_iteration environment a image_file k entries w =
      (case read_prompt a image_file (disk w0) of
         Inl e \<Rightarrow> (w0, Raise e)
       | Inr (prompt_content, entry) \<Rightarrow>
           if skip_overwrite a \<and> path_exists (disk w0) output_filename
           then (w0, Next (entries @ [entry, LogSkipped output_filename image_file]))
           else
             (case map_of (disk w0) (path_join (folder_path a) image_file) of
                Some (ImageFile image_obj) \<Rightarrow>
                  (case (if auto_crop a
                         then auto_crop_image (rounding environment) image_obj (width a) (height a)
                         else Inr image_obj) of
                     Inl e \<Rightarrow> (w0, Raise e)
                   | Inr img \<Rightarrow>
                       batch_generate environment a output_filename prompt_content seed img
                         (entries @ [entry, LogProcessing image_file seed]) w0)
              | _ \<Rightarrow> (w0, Next ((entries @ [entry, LogProcessing image_file seed])
                          @ [LogOpenFailed image_file]))))"
    unfolding batch_iteration_def Let_def fl_eq seed_def output_filename_def w0_def
    by simp
  have bi: "batch_iteration environment a image_file k entries w =
      (case read_prompt a image_file (disk w) of
         Inl e \<Rightarrow> (w0, Raise e)
       | Inr (prompt_content, entry) \<Rightarrow>
           if skip_overwrite a \<and> path_exists (disk w) output_filename
           then (w0, Next (entries @ [entry, LogSkipped output_filename image_file]))
           else
             (case map_of (disk w) (path_join (folder_path a) image_file) of
                Some (ImageFile image_obj) \<Rightarrow>
                  (case (if auto_crop a
                         then auto_crop_image (rounding environment) image_obj (width a) (height a)
                         else Inr image_obj) of
                     Inl e \<Rightarrow> (w0, Raise e)
                   | Inr img \<Rightarrow>
                       batch_generate environment a output_filename prompt_content seed img
                         (entries @ [entry, LogProcessing image_file seed]) w0)
              | _ \<Rightarrow> (w0, Next ((entries @ [entry, LogProcessing image_file seed])
                          @ [LogOpenFailed image_file]))))"
    using bi0 unfolding d0 .
  show ?thesis
  proof (cases "read_prompt a image_file (disk w)")
    case (Inl e)
    with bi have "batch_iteration environment a image_file k entries w = (w0, Raise e)" by simp
    with False show ?thesis unfolding w0_def by (rule quiet) simp
  next
    case (Inr pr)
    obtain prompt_content entry where pr: "pr = (prompt_content, entry)" by (cases pr)
    show ?thesis
    proof (cases "skip_overwrite a \<and> path_exists (disk w) output_filename")
      case True
      with bi Inr pr have "batch_iteration environment a image_file k entries w =
          (w0, Next (entries @ [entry, LogSkipped output_filename image_file]))" by simp
      with False True show ?thesis unfolding w0_def by (intro skipped) simp_all
    next
      case noskip: False
      let ?opened = "map_of (disk w) (path_join (folder_path a) image_file)"
      have closed: ?thesis if "\<And>image_obj. ?opened \<noteq> Some (ImageFile image_obj)"
      proof -
        from that have "(case ?opened of
            Some (ImageFile image_obj) \<Rightarrow> X image_obj | _ \<Rightarrow> Y) = Y"
          for X :: "image \<Rightarrow> world \<times> (log_entry list, log_entry list) flow" and Y
          by (auto split: option.splits fs_node.splits)
        with bi Inr pr noskip have "batch_iteration environment a image_file k entries w =
            (w0, Next ((entries @ [entry, LogProcessing image_file seed]) @ [LogOpenFailed image_file]))"
          by simp
        with False show ?thesis unfolding w0_def by (rule quiet) simp
      qed
      show ?thesis
      proof (cases "\<exists>image_obj. ?opened = Some (ImageFile image_obj)")
        case False
        then show ?thesis by (intro closed) simp
      next
        case True
        then obtain image_obj where op: "?opened = Some (ImageFile image_obj)" ..
        let ?crop = "if auto_crop a
            then auto_crop_image (rounding environment) image_obj (width a) (height a)
            else Inr image_obj"
        show ?thesis
        proof (cases ?crop)
          case (Inl e)
          with bi Inr pr noskip op
          have "batch_iteration environment a image_file k entries w = (w0, Raise e)" by simp
          with \<open>\<not> flag\<close> show ?thesis unfolding w0_def by (rule quiet) simp
        next
          case cr: (Inr img)
          with bi Inr pr noskip op
          have eq: "batch_iteration environment a image_file k entries w =
              batch_generate environment a output_filename prompt_content seed img
                (entries @ [entry, LogProcessing image_file seed]) w0" by simp
          show ?thesis
          proof (cases rule: batch_generate_cases [of environment a output_filename prompt_content
                seed img "entries @ [entry, LogProcessing image_file seed]" w0])
            case (1 w1 fl evs)
            from \<open>\<not> flag\<close> noskip show ?thesis
            proof (rule generated [where evs = "CallPipeline (ImageInput img) seed prompt_content
                  # SaveVideo output_filename # evs"])
              show "batch_iteration environment a image_file k entries w = (w1, fl)"
                using eq 1(1) by simp
              show "trace w1 = trace w @ ReadCancelFlag False
                  # CallPipeline (ImageInput img) seed prompt_content # SaveVideo output_filename # evs"
                using 1(2) t0 by simp
              show "saved_videos (CallPipeline (ImageInput img) seed prompt_content
                  # SaveVideo output_filename # evs) = [output_filename]"
                using 1(3) by simp
              show "list_all (body_event seed) (CallPipeline (ImageInput img) seed prompt_content
                  # SaveVideo output_filename # evs)"
                using 1(4) by simp
              show "path_exists (disk w1) q" if "path_exists (disk w) q" for q
                using that 1(5) [of q] d0 by simp
              show "path_exists (disk w1) output_filename" by (rule 1(6))
              show "loaded_pipeline w1 = loaded_pipeline w" using 1(7) g0 by simp
              show "loaded_pipeline_config w1 = loaded_pipeline_config w" using 1(8) g0 by simp
              show "(\<exists>e. fl = Raise e) \<or> (\<exists>l. fl = Next l)" by (rule 1(9))
            qed
          qed
        qed
      qed
    qed
  qed
qed

section \<open>The batch loop and a call of \<open>batch_process_videos\<close>\<close>

lemma batch_inv_refl: "batch_inv a w (w, Next entries)"
  by (simp add: batch_inv_def)

lemma batch_inv_trans:
  assumes "batch_inv a w (w1, Next entries1)" and "batch_inv a w1 out"
  shows "batch_inv a w out"
proof -
  from assms(1) obtain new1 where n1: "trace w1 = trace w @ new1"
    "list_all (\<lambda>ev. \<not> is_load ev) new1"
    "loaded_pipeline w1 = loaded_pipeline w" "loaded_pipeline_config w1 = loaded_pipeline_config w"
    "\<forall>p. path_exists (disk w) p \<longrightarrow> path_exists (disk w1) p"
    "\<forall>f \<in> set (saved_videos new1). path_exists (disk w1) f"
    "skip_overwrite a \<longrightarrow> distinct (saved_videos new1)
        \<and> (\<forall>f \<in> set (saved_videos new1). \<not> path_exists (disk w) f)"
    "ReadCancelFlag True \<notin> set new1"
    unfolding batch_inv_def fst_conv snd_conv flow.case by blast
  from assms(2) obtain new2 where n2: "trace (fst out) = trace w1 @ new2" "stops_at_cancel new2"
    "list_all (\<lambda>ev. \<not> is_load ev) new2"
    "loaded_pipeline (fst out) = loaded_pipeline w1"
    "loaded_pipeline_config (fst out) = loaded_pipeline_config w1"
    "\<forall>p. path_exists (disk w1) p \<longrightarrow> path_exists (disk (fst out)) p"
    "\<forall>f \<in> set (saved_videos new2). path_exists (disk (fst out)) f"
    "skip_overwrite a \<longrightarrow> distinct (saved_videos new2)
        \<and> (\<forall>f \<in> set (saved_videos new2). \<not> path_exists (disk w1) f)"
    "case snd out of
       Next entries \<Rightarrow> ReadCancelFlag True \<notin> set new2
     | Return r \<Rightarrow> False
     | Break entries \<Rightarrow> True
     | Raise e \<Rightarrow> ReadCancelFlag True \<notin> set new2"
    unfolding batch_inv_def by blast
  have 1: "trace (fst out) = trace w @ (new1 @ new2)" using n1(1) n2(1) by simp
  have 2: "stops_at_cancel (new1 @ new2)" using n1(8) n2(2) by (simp add: stops_at_cancel_append)
  have 3: "list_all (\<lambda>ev. \<not> is_load ev) (new1 @ new2)" using n1(2) n2(3) by simp
  have 4: "loaded_pipeline (fst out) = loaded_pipeline w"
    "loaded_pipeline_config (fst out) = loaded_pipeline_config w"
    using n1(3,4) n2(4,5) by simp_all
  have 5: "\<forall>p. path_exists (disk w) p \<longrightarrow> path_exists (disk (fst out)) p"
    using n1(5) n2(6) by blast
  have 6: "\<forall>f \<in> set (saved_videos (new1 @ new2)). path_exists (disk (fst out)) f"
    using n1(6) n2(6,7) by (auto simp: saved_videos_append)
  have 7: "skip_overwrite a \<longrightarrow> distinct (saved_videos (new1 @ new2))
        \<and> (\<forall>f \<in> set (saved_videos (new1 @ new2)). \<not> path_exists (disk w) f)"
    using n1(5,6,7) n2(8) by (auto simp: saved_videos_append)
  have 8: "case snd out of
       Next entries \<Rightarrow> ReadCancelFlag True \<notin> set (new1 @ new2)
     | Return r \<Rightarrow> False
     | Break entries \<Rightarrow> True
     | Raise e \<Rightarrow> ReadCancelFlag True \<notin> set (new1 @ new2)"
    using n1(8) n2(9) by (cases "snd out") auto
  from 1 2 3 4 5 6 7 8 show ?thesis unfolding batch_inv_def by blast
qed

lemma batch_iteration_inv:
  "batch_inv a w (batch_iteration environment a image_file k entries w)"
proof (cases rule: batch_iteration_cases [of w environment k a image_file entries])
  case cancelled
  show ?thesis
    unfolding cancelled(2) batch_inv_def
    by (rule exI [where x = "[ReadCancelFlag True]"]) simp
next
  case (skipped entry)
  show ?thesis
    unfolding skipped(4) batch_inv_def
    by (rule exI [where x = "[ReadCancelFlag False]"]) simp
next
  case (quiet fl)
  show ?thesis
    unfolding quiet(2) batch_inv_def
    using quiet(3) by (intro exI [where x = "[ReadCancelFlag False]"]) auto
next
  case (generated w1 fl evs)
  let ?out = "path_join (batch_output_folder a) (fst (splitext image_file) @ ''.mp4'')"
  have sv: "saved_videos (ReadCancelFlag False # evs) = [?out]"
    using generated(5) by simp
  show ?thesis
    unfolding generated(3) batch_inv_def fst_conv snd_conv
  proof (intro exI [where x = "ReadCancelFlag False # evs"] conjI)
    show "trace w1 = trace w @ ReadCancelFlag False # evs" by (rule generated(4))
    show "stops_at_cancel (ReadCancelFlag False # evs)"
      using body_events_props(3) [OF generated(6)] by simp
    show "list_all (\<lambda>ev. \<not> is_load ev) (ReadCancelFlag False # evs)"
      using body_events_props(2) [OF generated(6)] by simp
    show "loaded_pipeline w1 = loaded_pipeline w" by (rule generated(9))
    show "loaded_pipeline_config w1 = loaded_pipeline_config w" by (rule generated(10))
    show "\<forall>p. path_exists (disk w) p \<longrightarrow> path_exists (disk w1) p"
      using generated(7) by blast
    show "\<forall>f \<in> set (saved_videos (ReadCancelFlag False # evs)). path_exists (disk w1) f"
      unfolding sv using generated(8) by simp
    show "skip_overwrite a \<longrightarrow> distinct (saved_videos (ReadCancelFlag False # evs))
        \<and> (\<forall>f \<in> set (saved_videos (ReadCancelFlag False # evs)). \<not> path_exists (disk w) f)"
      unfolding sv using generated(2) by simp
    show "case fl of
       Next entries \<Rightarrow> ReadCancelFlag True \<notin> set (ReadCancelFlag False # evs)
     | Return r \<Rightarrow> False
     | Break entries \<Rightarrow> True
     | Raise e \<Rightarrow> ReadCancelFlag True \<notin> set (ReadCancelFlag False # evs)"
      using generated(11) body_events_props(1) [OF generated(6), of True] by auto
  qed
qed

lemma batch_loop_inv:
  "batch_inv a w (batch_loop environment a images k entries w)"
proof (induction images arbitrary: k entries w)
  case Nil
  show ?case by (simp add: batch_inv_refl)
next
  case (Cons image_file images)
  let ?it = "batch_iteration environment a image_file k entries w"
  obtain w1 fl where it: "?it = (w1, fl)" by (cases ?it)
  have inv: "batch_inv a w (w1, fl)" using batch_iteration_inv [of a w] it by metis
  show ?case
  proof (cases fl)
    case (Next entries1)
    with it inv Cons.IH [of w1 "Suc k" entries1] show ?thesis
      by (simp add: batch_inv_trans)
  qed (use it inv in simp_all)
qed

lemma batch_process_videos_events:
  assumes guard: "model_choice_radio a = ''WAN 2.1 14B Image-to-Video 720P''
      \<or> model_choice_radio a = ''WAN 2.1 14B Image-to-Video 480P''"
  defines "model_choice \<equiv>
      (if model_choice_radio a = ''WAN 2.1 14B Image-to-Video 720P''
       then ''14B_image_720p'' else ''14B_image_480p'')"
  shows "\<exists>new. trace (fst (batch_process_videos environment a w)) =
        trace w @
          (if loaded_pipeline w = None
              \<or> loaded_pipeline_config w \<noteq> Some (current_config model_choice a)
           then [LoadPipeline model_choice (torch_dtype a) (num_persistent_input a)
                   (effective_lora_model a) (lora_alpha a)]
           else []) @ new
      \<and> list_all (\<lambda>ev. \<not> is_load ev) new \<and> stops_at_cancel new
      \<and> (ReadCancelFlag True \<in> set new \<longrightarrow>
            (\<exists>entries. snd (batch_process_videos environment a w) = Inr entries))
      \<and> (skip_overwrite a \<longrightarrow> distinct (saved_videos new)
            \<and> (\<forall>f \<in> set (saved_videos new). \<not> path_exists (disk w) f))
      \<and> (isdir (disk w) (folder_path a) \<longrightarrow>
            (\<forall>r. snd (batch_process_videos environment a w) = Inr r \<longrightarrow>
               loaded_pipeline (fst (batch_process_videos environment a w)) = None
               \<and> loaded_pipeline_config (fst (batch_process_videos environment a w)) = None))"
proof -
  let ?loads = "if loaded_pipeline w = None
              \<or> loaded_pipeline_config w \<noteq> Some (current_config model_choice a)
           then [LoadPipeline model_choice (torch_dtype a) (num_persistent_input a)
                   (effective_lora_model a) (lora_alpha a)]
           else []"
  define w0 where "w0 = w\<lparr>cancel_batch_flag := False\<rparr>"
  have valid: "model_choice = ''1.3B'' \<or> model_choice = ''14B_text''
     \<or> model_choice = ''14B_image_720p'' \<or> model_choice = ''14B_image_480p''"
    by (simp add: model_choice_def)
  from reload_if_changed_valid [OF valid, of a w0]
  obtain w1 where w1: "reload_if_changed model_choice a w0 = Inr w1"
    "trace w1 = trace w @ ?loads" "disk w1 = disk w"
    by (auto simp: w0_def)
  have guard': "(model_choice_radio a \<noteq> ''WAN 2.1 14B Image-to-Video 720P''
      \<and> model_choice_radio a \<noteq> ''WAN 2.1 14B Image-to-Video 480P'') = False"
    using guard by blast
  have bp0: "batch_process_videos environment a w =
      (if \<not> isdir (disk w1) (folder_path a)
       then (w1, Inr [LogNoFolder (folder_path a)])
       else
         (case batch_loop environment a
                 (filter is_image_name
                    (listdir (disk (w1\<lparr>disk := makedirs (disk w1) (batch_output_folder a)\<rparr>))
                       (folder_path a))) 0
                 ((if \<not> path_exists (disk w1) (batch_output_folder a)
                   then [LogCreatedFolder (batch_output_folder a)] else [])
                  @ [LogFound (length (filter is_image_name
                    (listdir (disk (w1\<lparr>disk := makedirs (disk w1) (batch_output_folder a)\<rparr>))
                       (folder_path a)))) (folder_path a)])
                 (w1\<lparr>disk := makedirs (disk w1) (batch_output_folder a)\<rparr>) of
            (w3, Next log1) \<Rightarrow> (reset_pipeline w3, Inr log1)
          | (w3, Break log1) \<Rightarrow> (reset_pipeline w3, Inr log1)
          | (w3, Return r) \<Rightarrow> (w3, Inr r)
          | (w3, Raise e) \<Rightarrow> (w3, Inl e)))"
    unfolding batch_process_videos_def Let_def guard' if_False model_choice_def [symmetric]
      w0_def [symmetric] w1(1) sum.case
    by (rule refl)
  show ?thesis
  proof (cases "isdir (disk w) (folder_path a)")
    case False
    then have "batch_process_videos environment a w = (w1, Inr [LogNoFolder (folder_path a)])"
      using w1(3) by (simp add: bp0)
    with False w1(2) show ?thesis
      by (intro exI [where x = "[]"]) simp
  next
    case True
    define w2 where "w2 = w1\<lparr>disk := makedirs (disk w1) (batch_output_folder a)\<rparr>"
    define images where "images = filter is_image_name (listdir (disk w2) (folder_path a))"
    define entries where "entries =
        (if \<not> path_exists (disk w1) (batch_output_folder a)
         then [LogCreatedFolder (batch_output_folder a)] else [])
        @ [LogFound (length images) (folder_path a)]"
    let ?loop = "batch_loop environment a images 0 entries w2"
    obtain w3 fl where loop: "?loop = (w3, fl)" by (cases ?loop)
    have bp: "batch_process_videos environment a w =
        (case fl of
           Next log1 \<Rightarrow> (reset_pipeline w3, Inr log1)
         | Return r \<Rightarrow> (w3, Inr r)
         | Break log1 \<Rightarrow> (reset_pipeline w3, Inr log1)
         | Raise e \<Rightarrow> (w3, Inl e))"
      using True w1(3) loop
      unfolding bp0 w2_def images_def entries_def
      by (simp split: flow.splits)
    from batch_loop_inv [of a w2 environment images 0 entries] loop
    have "batch_inv a w2 (w3, fl)" by metis
    then obtain new where new: "trace w3 = trace w2 @ new" "stops_at_cancel new"
      "list_all (\<lambda>ev. \<not> is_load ev) new"
      "skip_overwrite a \<longrightarrow> distinct (saved_videos new)
          \<and> (\<forall>f \<in> set (saved_videos new). \<not> path_exists (disk w2) f)"
      and fl: "case fl of
         Next entries \<Rightarrow> ReadCancelFlag True \<notin> set new
       | Return r \<Rightarrow> False
       | Break entries \<Rightarrow> True
       | Raise e \<Rightarrow> ReadCancelFlag True \<notin> set new"
      unfolding batch_inv_def fst_conv snd_conv by blast
    have t2: "trace w2 = trace w @ ?loads" using w1(2) by (simp add: w2_def)
    have d2: "path_exists (disk w) f \<Longrightarrow> path_exists (disk w2) f" for f
      using w1(3) by (simp add: w2_def path_exists_makedirs)
    have fresh: "skip_overwrite a \<longrightarrow> distinct (saved_videos new)
          \<and> (\<forall>f \<in> set (saved_videos new). \<not> path_exists (disk w) f)"
      using new(4) d2 by blast
    show ?thesis
    proof (cases fl)
      case (Next log1)
      with bp new t2 fresh fl show ?thesis
        by (intro exI [where x = new]) simp
    next
      case (Return r)
      with fl show ?thesis by simp
    next
      case (Break log1)
      with bp new t2 fresh show ?thesis
        by (intro exI [where x = new]) simp
    next
      case (Raise e)
      with bp new t2 fresh fl show ?thesis
        by (intro exI [where x = new]) simp
    qed
  qed
qed

lemma batch_process_videos_rejected:
  assumes "model_choice_radio a \<noteq> ''WAN 2.1 14B Image-to-Video 720P''"
    and "model_choice_radio a \<noteq> ''WAN 2.1 14B Image-to-Video 480P''"
  shows "batch_process_videos environment a w =
      (w\<lparr>cancel_batch_flag := False\<rparr>, Inr [LogBatchUnsupported])"
  using assms by (simp add: batch_process_videos_def Let_def)

lemma generate_videos_rejected:
  assumes "effective_model (model_choice_radio a) = None"
  shows "generate_videos environment a w =
      (w\<lparr>cancel_flag := False\<rparr>, Inr ([], Message ''Invalid model choice.'', []))"
  using assms by (simp add: generate_videos_def Let_def)



lemma loads_no_cancel:
  "stops_at_cancel new \<Longrightarrow>
     stops_at_cancel ((if c then [LoadPipeline m t n l s] else []) @ new)"
  by simp



section \<open>Evaluation of the model on given inputs\<close>

lemma generations_loop_numeral:
  "generations_loop environment a model_choice original_image video p (numeral n) ls w =
     (case generate_iteration environment a model_choice original_image video p ls w of
        (w1, Next ls1) \<Rightarrow>
          generations_loop environment a model_choice original_image video p (pred_numeral n) ls1 w1
      | (w1, other) \<Rightarrow> (w1, other))"
  by (simp add: numeral_eq_Suc)

lemmas eval_world =
  generate_videos_def effective_model_def preprocess_def reload_if_changed_def load_wan_pipeline_def
  current_config_def effective_lora_model_def prompts_list_def generate_iteration_def
  cancel_return_def model_branch_def next_video_filename_def finish_def apply_rife_def
  current_seed_def seed_of_input_def randint_def seed_text_def str_int_def
  batch_process_videos_def batch_iteration_def batch_generate_def read_prompt_def
  is_image_name_def lower_def listdir_def child_name_def path_join_def basename_def
  path_exists_def isdir_def write_file_def makedirs_def save_video_def save_image_def
  write_text_def emit_def reset_pipeline_def generation_details_def processed_image_def
  quiet_env_def form_defaults_def initial_world_def Let_def generations_loop_numeral

section \<open>The seed\<close>



section \<open>The pipeline cache\<close>

text \<open>
  Claim C3, as amended. A call that passes the guard on the model choice (a recognised
  model for \<open>generate_videos\<close>, with a preprocessing that raised nothing; one of the two
  image-to-video models for \<open>batch_process_videos\<close>) invokes \<open>load_wan_pipeline\<close> once, with
  the values of the current configuration, when no pipeline is loaded or the stored
  configuration differs from the current one, and not at all otherwise. A call that the
  guard rejects invokes nothing and leaves the trace as it was.
\<close>

theorem pipeline_loaded_iff_changed:
  "(effective_model (model_choice_radio a) = Some model_choice
      \<and> preprocess environment a model_choice (w\<lparr>cancel_flag := False\<rparr>) = Inr prepared \<longrightarrow>
      filter is_load (drop (length (trace w)) (trace (fst (generate_videos environment a w)))) =
        (if loaded_pipeline w = None
            \<or> loaded_pipeline_config w \<noteq> Some (current_config model_choice a)
         then [LoadPipeline model_choice (torch_dtype a) (num_persistent_input a)
                 (effective_lora_model a) (lora_alpha a)]
         else []))
   \<and> (model_choice_radio a = ''WAN 2.1 14B Image-to-Video 720P''
        \<or> model_choice_radio a = ''WAN 2.1 14B Image-to-Video 480P'' \<longrightarrow>
      filter is_load (drop (length (trace w)) (trace (fst (batch_process_videos environment a w)))) =
        (if loaded_pipeline w = None
            \<or> loaded_pipeline_config w \<noteq> Some (current_config
                 (if model_choice_radio a = ''WAN 2.1 14B Image-to-Video 720P''
                  then ''14B_image_720p'' else ''14B_image_480p'') a)
         then [LoadPipeline
                 (if model_choice_radio a = ''WAN 2.1 14B Image-to-Video 720P''
                  then ''14B_image_720p'' else ''14B_image_480p'')
                 (torch_dtype a) (num_persistent_input a) (effective_lora_model a) (lora_alpha a)]
         else []))
   \<and> (effective_model (model_choice_radio a) = None \<longrightarrow>
        trace (fst (generate_videos environment a w)) = trace w)
   \<and> (model_choice_radio a \<noteq> ''WAN 2.1 14B Image-to-Video 720P''
        \<and> model_choice_radio a \<noteq> ''WAN 2.1 14B Image-to-Video 480P'' \<longrightarrow>
        trace (fst (batch_process_videos environment a w)) = trace w)"
proof (intro conjI impI)
  assume h: "effective_model (model_choice_radio a) = Some model_choice
      \<and> preprocess environment a model_choice (w\<lparr>cancel_flag := False\<rparr>) = Inr prepared"
  obtain w1 original_image video where "prepared = (w1, original_image, video)"
    by (cases prepared)
  with h have m: "effective_model (model_choice_radio a) = Some model_choice"
    and pre: "preprocess environment a model_choice (w\<lparr>cancel_flag := False\<rparr>) =
        Inr (w1, original_image, video)" by simp_all
  from generate_videos_events [OF m pre]
  obtain new where new: "trace (fst (generate_videos environment a w)) =
        trace w @
          (if loaded_pipeline w = None
              \<or> loaded_pipeline_config w \<noteq> Some (current_config model_choice a)
           then [LoadPipeline model_choice (torch_dtype a) (num_persistent_input a)
                   (effective_lora_model a) (lora_alpha a)]
           else []) @ new"
    "list_all (\<lambda>ev. \<not> is_load ev) new" by blast
  from new(2) have "filter is_load new = []" by (simp add: list_all_iff filter_empty_conv)
  with new(1) show "filter is_load (drop (length (trace w))
        (trace (fst (generate_videos environment a w)))) =
        (if loaded_pipeline w = None
            \<or> loaded_pipeline_config w \<noteq> Some (current_config model_choice a)
         then [LoadPipeline model_choice (torch_dtype a) (num_persistent_input a)
                 (effective_lora_model a) (lora_alpha a)]
         else [])"
    by simp
next
  assume guard: "model_choice_radio a = ''WAN 2.1 14B Image-to-Video 720P''
      \<or> model_choice_radio a = ''WAN 2.1 14B Image-to-Video 480P''"
  let ?m = "if model_choice_radio a = ''WAN 2.1 14B Image-to-Video 720P''
      then ''14B_image_720p'' else ''14B_image_480p''"
  from batch_process_videos_events [OF guard, where w = w and environment = environment]
  obtain new where new: "trace (fst (batch_process_videos environment a w)) =
        trace w @
          (if loaded_pipeline w = None \<or> loaded_pipeline_config w \<noteq> Some (current_config ?m a)
           then [LoadPipeline ?m (torch_dtype a) (num_persistent_input a)
                   (effective_lora_model a) (lora_alpha a)]
           else []) @ new"
    "list_all (\<lambda>ev. \<not> is_load ev) new" by blast
  from new(2) have "filter is_load new = []" by (simp add: list_all_iff filter_empty_conv)
  with new(1) show "filter is_load (drop (length (trace w))
        (trace (fst (batch_process_videos environment a w)))) =
        (if loaded_pipeline w = None \<or> loaded_pipeline_config w \<noteq> Some (current_config ?m a)
         then [LoadPipeline ?m (torch_dtype a) (num_persistent_input a)
                 (effective_lora_model a) (lora_alpha a)]
         else [])"
    by simp
next
  assume "effective_model (model_choice_radio a) = None"
  then show "trace (fst (generate_videos environment a w)) = trace w"
    by (simp add: generate_videos_rejected)
next
  assume "model_choice_radio a \<noteq> ''WAN 2.1 14B Image-to-Video 720P''
      \<and> model_choice_radio a \<noteq> ''WAN 2.1 14B Image-to-Video 480P''"
  then show "trace (fst (batch_process_videos environment a w)) = trace w"
    by (simp add: batch_process_videos_rejected)
qed

text \<open>
  The first call of \<open>generate_videos\<close> after the start, with the form as it is: no pipeline
  is loaded, and the 1.3B model is loaded once.
\<close>

theorem pipeline_loaded_iff_changed_witness:
  "effective_model (model_choice_radio form_defaults) = Some ''1.3B''
   \<and> preprocess quiet_env form_defaults ''1.3B'' (initial_world\<lparr>cancel_flag := False\<rparr>) =
       Inr (initial_world\<lparr>cancel_flag := False\<rparr>, None, None)
   \<and> loaded_pipeline initial_world = None
   \<and> filter is_load (drop (length (trace initial_world))
        (trace (fst (generate_videos quiet_env form_defaults initial_world)))) =
       [LoadPipeline ''1.3B'' ''torch.bfloat16'' ''12000000000'' None 1]"
proof -
  have m: "effective_model (model_choice_radio form_defaults) = Some ''1.3B''"
    by (simp add: effective_model_def form_defaults_def)
  have pre: "preprocess quiet_env form_defaults ''1.3B'' (initial_world\<lparr>cancel_flag := False\<rparr>) =
       Inr (initial_world\<lparr>cancel_flag := False\<rparr>, None, None)"
    by (simp add: preprocess_def form_defaults_def Let_def)
  have none: "loaded_pipeline initial_world = None"
    by (simp add: initial_world_def)
  have vals: "torch_dtype form_defaults = ''torch.bfloat16''"
    "num_persistent_input form_defaults = ''12000000000''"
    "effective_lora_model form_defaults = None" "lora_alpha form_defaults = 1"
    by (simp_all add: form_defaults_def effective_lora_model_def)
  from pipeline_loaded_iff_changed [of form_defaults "''1.3B''" quiet_env initial_world
      "(initial_world\<lparr>cancel_flag := False\<rparr>, None, None)"] m pre none
  have "filter is_load (drop (length (trace initial_world))
        (trace (fst (generate_videos quiet_env form_defaults initial_world)))) =
       [LoadPipeline ''1.3B'' (torch_dtype form_defaults) (num_persistent_input form_defaults)
          (effective_lora_model form_defaults) (lora_alpha form_defaults)]"
    by simp
  with m pre none vals show ?thesis by simp
qed

text \<open>
  The claim as it stands speaks of every call. A call of \<open>batch_process_videos\<close> with the
  1.3B model, the model the form starts with, is turned away by the guard of lines 579 to
  581: no pipeline is loaded at the start, and \<open>load_wan_pipeline\<close> is not invoked.
\<close>

theorem pipeline_loaded_iff_changed_counterexample:
  "loaded_pipeline initial_world = None
   \<and> filter is_load (trace (fst (batch_process_videos quiet_env form_defaults initial_world))) = []
   \<and> snd (batch_process_videos quiet_env form_defaults initial_world) = Inr [LogBatchUnsupported]"
  by (simp add: batch_process_videos_def form_defaults_def initial_world_def Let_def)

section \<open>The reset of the pipeline globals\<close>

text \<open>
  Claim C8, at the input where the code departs from it. \<open>batch_process_videos\<close> is called
  with an image-to-video model and an input folder that does not exist. The pipeline is
  loaded, the function returns at lines 621 to 623 with the message of the missing
  folder, and the pipeline and its configuration are still in the globals: this return
  lacks the reset that the other returns after the load perform.
\<close>

theorem batch_missing_folder_keeps_pipeline:
  "batch_process_videos quiet_env
       (form_defaults\<lparr>model_choice_radio := ''WAN 2.1 14B Image-to-Video 720P''\<rparr>) initial_world =
     (initial_world
        \<lparr>loaded_pipeline :=
           Some (WanVideoPipeline ''14B_image_720p'' ''torch.bfloat16'' ''12000000000'' None 1),
         loaded_pipeline_config :=
           Some \<lparr>cfg_model_choice = ''14B_image_720p'', cfg_torch_dtype = ''torch.bfloat16'',
                 cfg_num_persistent = ''12000000000'', cfg_lora_model = None, cfg_lora_alpha = 1\<rparr>,
         trace := [LoadPipeline ''14B_image_720p'' ''torch.bfloat16'' ''12000000000'' None 1]\<rparr>,
      Inr [LogNoFolder ''batch_inputs''])"
  by (simp add: eval_world)

section \<open>Errors that \<open>generate_videos\<close> detects\<close>




section \<open>Cancellation\<close>



section \<open>Skipping existing outputs\<close>



section \<open>The frames written by auto_crop_video\<close>









end
